theory Spec2Isabelle
  imports Main "HOL-Library.AList" "HOL-Library.Char_ord" "HOL-Library.List_Lexorder"
begin

section \<open>Values, errors and Python dictionaries\<close>

text \<open>
  Values held by a data proxy. \<open>Missing\<close> is marshmallow's \<open>missing\<close> sentinel and
  \<open>VNone\<close> is Python's \<open>None\<close>. The three last constructors are the data objects
  (\<open>BaseDataObject\<close>) of \<open>data_objects.py\<close> and \<open>embedded_document.py\<close>:
  \<open>VList m xs\<close> is a \<open>List\<close> with its \<open>_modified\<close> flag, \<open>VDict m kvs\<close> a \<open>Dict\<close> with
  its flag, and \<open>VEmb md kvs\<close> an embedded document, whose data proxy has the modified keys
  \<open>md\<close> and the values \<open>kvs\<close>.
\<close>

datatype val =
    Missing
  | VNone
  | VInt int
  | VStr string
  | VBool bool
  | VList bool "val list"
  | VDict bool "(string \<times> val) list"
  | VEmb "string list" "(string \<times> val) list"

text \<open>
  The messages of a \<open>ValidationError\<close>: a list of strings, or a dictionary of messages
  keyed by field names or by list indexes.
\<close>

datatype messages =
    Msgs "string list"
  | MsgDict "(string \<times> messages) list"
  | MsgIndexed "(nat \<times> messages) list"

datatype error =
    ValidationError messages
  | FieldNotLoadedError string
  | KeyError string
  | AttributeError string
  | TypeError string
  | AssertionError string
  | RuntimeError string
  | NotCreatedError string
  | DocumentDefinitionError string
  | UpdateError nat
  | DuplicateKeyError string

text \<open>
  What a validator does on a value: it returns, it raises a \<open>ValidationError\<close> (whose
  \<open>messages\<close> are a list of strings), or it raises another exception (\<open>Raised e\<close>, for an
  exception \<open>e\<close> that is not a \<open>ValidationError\<close>).
\<close>

datatype validation = Passed | Invalid "string list" | Raised error

text \<open>
  A Python \<open>dict\<close> is an association list in insertion order; \<open>d[k] = v\<close> is
  \<open>AList.update k v d\<close> (an existing key keeps its place), \<open>k in d\<close> is
  \<open>k \<in> set (map fst d)\<close>, \<open>d.get(k)\<close> is \<open>map_of d k\<close>.
\<close>

definition dict_of :: "('k \<times> 'v) list \<Rightarrow> ('k \<times> 'v) list" where
  "dict_of kvs = fold (\<lambda>(k, v) d. AList.update k v d) kvs []"

definition getitem :: "(string \<times> 'v) list \<Rightarrow> string \<Rightarrow> error + 'v" where
  "getitem d k = (case map_of d k of None \<Rightarrow> Inl (KeyError k) | Some v \<Rightarrow> Inr v)"

fun ebind :: "'e + 'a \<Rightarrow> ('a \<Rightarrow> 'e + 'b) \<Rightarrow> 'e + 'b" where
  "ebind (Inl e) f = Inl e"
| "ebind (Inr x) f = f x"

section \<open>Data objects: \<open>is_modified\<close> and \<open>clear_modified\<close>\<close>

fun is_data_object :: "val \<Rightarrow> bool" where
  "is_data_object (VList m xs) = True"
| "is_data_object (VDict m kvs) = True"
| "is_data_object (VEmb md kvs) = True"
| "is_data_object v = False"

text \<open>
  \<open>List.is_modified\<close>, \<open>Dict.is_modified\<close> and the \<open>is_modified\<close> of an embedded document
  (that of its data proxy). \<open>any_is_modified\<close> is \<open>any(obj.is_modified() for obj in self)\<close>,
  which raises \<open>AttributeError\<close> on an element that is no data object, and
  \<open>values_any_modified\<close> is
  \<open>any(isinstance(v, BaseDataObject) and v.is_modified() for v in self._data.values())\<close>.
\<close>

fun val_is_modified :: "val \<Rightarrow> error + bool"
  and any_is_modified :: "val list \<Rightarrow> error + bool"
  and values_any_modified :: "(string \<times> val) list \<Rightarrow> error + bool" where
  "val_is_modified (VList m xs) =
     (if m then Inr True
      else (case xs of [] \<Rightarrow> Inr False
            | x # _ \<Rightarrow> if is_data_object x then any_is_modified xs else Inr False))"
| "val_is_modified (VDict m kvs) = Inr m"
| "val_is_modified (VEmb md kvs) = (if md \<noteq> [] then Inr True else values_any_modified kvs)"
| "val_is_modified Missing = Inl (AttributeError ''is_modified'')"
| "val_is_modified VNone = Inl (AttributeError ''is_modified'')"
| "val_is_modified (VInt i) = Inl (AttributeError ''is_modified'')"
| "val_is_modified (VStr s) = Inl (AttributeError ''is_modified'')"
| "val_is_modified (VBool b) = Inl (AttributeError ''is_modified'')"
| "any_is_modified [] = Inr False"
| "any_is_modified (x # xs) =
     (case val_is_modified x of Inl e \<Rightarrow> Inl e
      | Inr b \<Rightarrow> if b then Inr True else any_is_modified xs)"
| "values_any_modified [] = Inr False"
| "values_any_modified (kv # kvs) =
     (if is_data_object (snd kv)
      then (case val_is_modified (snd kv) of Inl e \<Rightarrow> Inl e
            | Inr b \<Rightarrow> if b then Inr True else values_any_modified kvs)
      else values_any_modified kvs)"

fun val_clear_modified :: "val \<Rightarrow> error + val"
  and all_clear_modified :: "val list \<Rightarrow> error + val list"
  and values_clear_modified :: "(string \<times> val) list \<Rightarrow> error + (string \<times> val) list" where
  "val_clear_modified (VList m xs) =
     (case xs of [] \<Rightarrow> Inr (VList False [])
      | x # _ \<Rightarrow>
          if is_data_object x
          then (case all_clear_modified xs of Inl e \<Rightarrow> Inl e | Inr ys \<Rightarrow> Inr (VList False ys))
          else Inr (VList False xs))"
| "val_clear_modified (VDict m kvs) = Inr (VDict False kvs)"
| "val_clear_modified (VEmb md kvs) =
     (case values_clear_modified kvs of Inl e \<Rightarrow> Inl e | Inr kvs' \<Rightarrow> Inr (VEmb [] kvs'))"
| "val_clear_modified Missing = Inl (AttributeError ''clear_modified'')"
| "val_clear_modified VNone = Inl (AttributeError ''clear_modified'')"
| "val_clear_modified (VInt i) = Inl (AttributeError ''clear_modified'')"
| "val_clear_modified (VStr s) = Inl (AttributeError ''clear_modified'')"
| "val_clear_modified (VBool b) = Inl (AttributeError ''clear_modified'')"
| "all_clear_modified [] = Inr []"
| "all_clear_modified (x # xs) =
     (case val_clear_modified x of Inl e \<Rightarrow> Inl e
      | Inr y \<Rightarrow> (case all_clear_modified xs of Inl e \<Rightarrow> Inl e | Inr ys \<Rightarrow> Inr (y # ys)))"
| "values_clear_modified [] = Inr []"
| "values_clear_modified (kv # kvs) =
     (if is_data_object (snd kv)
      then (case val_clear_modified (snd kv) of Inl e \<Rightarrow> Inl e
            | Inr y \<Rightarrow> (case values_clear_modified kvs of Inl e \<Rightarrow> Inl e
                        | Inr kvs' \<Rightarrow> Inr ((fst kv, y) # kvs')))
      else (case values_clear_modified kvs of Inl e \<Rightarrow> Inl e
            | Inr kvs' \<Rightarrow> Inr (kv # kvs')))"

section \<open>Fields\<close>

text \<open>
  A field of \<open>abstract.py\<close>/\<open>fields.py\<close> with the attributes the code reads:
  \<open>attribute\<close> (the storage key, when it differs from the logical name), \<open>required\<close>,
  \<open>allow_none\<close>, \<open>unique\<close>, \<open>dump_only\<close>, \<open>missing\<close> (the resolved default: the constructor
  of \<open>BaseField\<close> copies \<open>default\<close> into \<open>missing\<close> and deserializes both, so \<open>field.default\<close>
  and \<open>field.missing\<close> hold the same value) and \<open>error_messages\<close>. The methods that each
  field class overrides are components too: \<open>deserialize_hook\<close> is \<open>_deserialize\<close> followed
  by \<open>_validate\<close> (it returns the messages of the \<open>ValidationError\<close> it raises),
  \<open>serialize_to_mongo_hook\<close> is \<open>_serialize_to_mongo\<close> and \<open>deserialize_from_mongo_hook\<close> is
  \<open>_deserialize_from_mongo\<close>. \<open>io_validate\<close> is the list of I/O validators that the
  builder of \<open>frameworks/pymongo.py\<close> leaves on the field (\<open>_patch_field\<close> always makes it
  a list); a validator is called on the value and returns, raises a \<open>ValidationError\<close>
  or raises another exception. \<open>kind\<close> tells a \<open>ListField\<close> (with its container) and an
  \<open>EmbeddedField\<close> (with the fields of the schema of its embedded document) from the others.
\<close>

datatype field = Field
    (attribute: "string option")
    (required: bool)
    (allow_none: bool)
    (unique: bool)
    (dump_only: bool)
    (missing: val)
    (error_messages: "string \<Rightarrow> string")
    (deserialize_hook: "val \<Rightarrow> string list + val")
    (serialize_to_mongo_hook: "val \<Rightarrow> val")
    (deserialize_from_mongo_hook: "val \<Rightarrow> val")
    (io_validate: "(val \<Rightarrow> validation) list")
    (kind: field_kind)
and field_kind =
    Plain
  | ListField field
  | EmbeddedField "(string \<times> field) list"

text \<open>\<open>field.attribute or name\<close>: \<open>None\<close> and the empty string are both false.\<close>

definition storage_key :: "string \<Rightarrow> field \<Rightarrow> string" where
  "storage_key name f =
     (case attribute f of None \<Rightarrow> name | Some a \<Rightarrow> if a = [] then name else a)"

text \<open>\<open>BaseField._validate_missing\<close>.\<close>

definition validate_missing :: "field \<Rightarrow> val \<Rightarrow> error + unit" where
  "validate_missing f v =
     (if v = VNone \<and> \<not> allow_none f
      then Inl (ValidationError (Msgs [error_messages f ''null'']))
      else Inr ())"

text \<open>
  \<open>BaseField.deserialize\<close> delegates to marshmallow's \<open>Field.deserialize\<close>, which calls
  \<open>_validate_missing\<close> first, lets \<open>None\<close> through when \<open>allow_none\<close> is set, and then
  runs \<open>_deserialize\<close> and \<open>_validate\<close>.
\<close>

definition deserialize :: "field \<Rightarrow> val \<Rightarrow> error + val" where
  "deserialize f v =
     ebind (validate_missing f v) (\<lambda>_.
       if allow_none f \<and> v = VNone then Inr VNone
       else (case deserialize_hook f v of
               Inl ms \<Rightarrow> Inl (ValidationError (Msgs ms))
             | Inr v' \<Rightarrow> Inr v'))"

text \<open>\<open>BaseField.serialize_to_mongo\<close> and \<open>BaseField.deserialize_from_mongo\<close>.\<close>

definition serialize_to_mongo :: "field \<Rightarrow> val \<Rightarrow> val" where
  "serialize_to_mongo f obj =
     (if obj = VNone \<and> allow_none f then VNone
      else if obj = Missing then Missing
      else serialize_to_mongo_hook f obj)"

definition deserialize_from_mongo :: "field \<Rightarrow> val \<Rightarrow> val" where
  "deserialize_from_mongo f v =
     (if v = VNone \<and> allow_none f then VNone
      else deserialize_from_mongo_hook f v)"

section \<open>Schema loading\<close>

text \<open>
  \<open>schema.load(data, partial=True)\<close> is marshmallow's; the data proxy always calls it with
  \<open>partial=True\<close>. It visits the fields in declared order, skips the \<open>dump_only\<close> ones and
  those whose input is absent or \<open>missing\<close>, deserializes the others and stores the result
  under the storage key; the errors of all fields are collected under their names. The
  schema validator of \<open>marshmallow_bonus.py\<close> then reports, under \<open>_schema\<close>, every input
  key (with a value other than \<open>missing\<close>) that is not the name of a loadable field.
\<close>

fun load_fields ::
  "(string \<times> field) list \<Rightarrow> (string \<times> val) list \<Rightarrow>
   (string \<times> messages) list \<times> (string \<times> val) list" where
  "load_fields [] input = ([], [])"
| "load_fields ((name, f) # fs) input =
     (let (errs, ret) = load_fields fs input in
      if dump_only f then (errs, ret)
      else (case map_of input name of
              None \<Rightarrow> (errs, ret)
            | Some raw \<Rightarrow>
                if raw = Missing then (errs, ret)
                else (case deserialize f raw of
                        Inl (ValidationError ms) \<Rightarrow> ((name, ms) # errs, ret)
                      | Inl e \<Rightarrow> (errs, ret)
                      | Inr v \<Rightarrow>
                          if v = Missing then (errs, ret)
                          else (errs, (storage_key name f, v) # ret))))"

definition schema_validator_check_unknown_fields ::
  "(string \<times> field) list \<Rightarrow> (string \<times> val) list \<Rightarrow> string list" where
  "schema_validator_check_unknown_fields flds original_data =
     (let loadable_fields = map fst (filter (\<lambda>(k, v). \<not> dump_only v) flds);
          unknown_fields = map fst (filter (\<lambda>(key, value).
             value \<noteq> Missing \<and> key \<notin> set loadable_fields) original_data)
      in map (\<lambda>field. ''Unknown field name '' @ field @ ''.'') unknown_fields)"

definition schema_load ::
  "(string \<times> field) list \<Rightarrow> (string \<times> val) list \<Rightarrow> error + (string \<times> val) list" where
  "schema_load flds input =
     (let (errs, ret) = load_fields flds input;
          unknown = schema_validator_check_unknown_fields flds input;
          err = (if unknown = [] then errs else errs @ [(''_schema'', Msgs unknown)])
      in if err \<noteq> [] then Inl (ValidationError (MsgDict err)) else Inr (dict_of ret))"

section \<open>The data proxy\<close>

text \<open>
  The state of a \<open>BaseDataProxy\<close>. \<open>not_loaded_fields\<close> is a set of field objects in the
  source; a schema holds one field object per logical name, so the set is kept as the set
  of their logical names. The class attributes \<open>_fields\<close> (the schema's fields, by logical
  name, in declared order) are the parameter \<open>flds\<close> of every operation.
\<close>

record data_proxy =
  not_loaded_fields :: "string set"
  data :: "(string \<times> val) list"
  modified_data :: "string set"

text \<open>\<open>_fields_from_mongo_key\<close>: the field (with its logical name) of each storage key.\<close>

definition fields_from_mongo_key ::
  "(string \<times> field) list \<Rightarrow> (string \<times> (string \<times> field)) list" where
  "fields_from_mongo_key flds = dict_of (map (\<lambda>(k, v). (storage_key k v, (k, v))) flds)"

definition clear_modified :: "data_proxy \<Rightarrow> error + data_proxy" where
  "clear_modified dp =
     ebind (values_clear_modified (data dp)) (\<lambda>d.
       Inr (dp\<lparr>modified_data := {}, data := d\<rparr>))"

definition mark_as_modified :: "data_proxy \<Rightarrow> string \<Rightarrow> data_proxy" where
  "mark_as_modified dp key = dp\<lparr>modified_data := insert key (modified_data dp)\<rparr>"

definition collect_partial_fields ::
  "(string \<times> field) list \<Rightarrow> data_proxy \<Rightarrow> string list \<Rightarrow> bool \<Rightarrow> data_proxy" where
  "collect_partial_fields flds dp loaded_fields as_mongo_fields =
     (if as_mongo_fields
      then dp\<lparr>not_loaded_fields :=
             (\<lambda>k. fst (the (map_of (fields_from_mongo_key flds) k))) `
               (set (map fst (fields_from_mongo_key flds)) - set loaded_fields)\<rparr>
      else dp\<lparr>not_loaded_fields := set (map fst flds) - set loaded_fields\<rparr>)"

fun add_missing_fields_loop ::
  "(string \<times> field) list \<Rightarrow> (string \<times> val) list \<Rightarrow> (string \<times> val) list" where
  "add_missing_fields_loop [] d = d"
| "add_missing_fields_loop ((name, f) # fs) d =
     (let mongo_name = storage_key name f in
      if mongo_name \<notin> set (map fst d)
      then add_missing_fields_loop fs (AList.update mongo_name (missing f) d)
      else add_missing_fields_loop fs d)"

definition add_missing_fields :: "(string \<times> field) list \<Rightarrow> data_proxy \<Rightarrow> data_proxy" where
  "add_missing_fields flds dp = dp\<lparr>data := add_missing_fields_loop flds (data dp)\<rparr>"

text \<open>\<open>BaseDataProxy.load\<close>.\<close>

definition load ::
  "(string \<times> field) list \<Rightarrow> data_proxy \<Rightarrow> (string \<times> val) list \<Rightarrow> bool \<Rightarrow>
   error + data_proxy" where
  "load flds dp input partial =
     ebind (schema_load flds input) (\<lambda>loaded_data.
     ebind (clear_modified (dp\<lparr>data := loaded_data\<rparr>)) (\<lambda>dp1.
       let dp2 = fold (\<lambda>key d. mark_as_modified d key) (map fst loaded_data) dp1;
           dp3 = (if partial then collect_partial_fields flds dp2 (map fst input) False
                  else dp2\<lparr>not_loaded_fields := {}\<rparr>)
       in Inr (add_missing_fields flds dp3)))"

text \<open>\<open>BaseDataProxy.__init__\<close>: empty sets, then \<open>load(data or {})\<close>.\<close>

definition new_data_proxy ::
  "(string \<times> field) list \<Rightarrow> (string \<times> val) list \<Rightarrow> error + data_proxy" where
  "new_data_proxy flds input =
     load flds \<lparr>not_loaded_fields = {}, data = [], modified_data = {}\<rparr> input False"

text \<open>\<open>_get_field\<close>, \<open>get\<close>, \<open>set\<close> and \<open>delete\<close> by logical name.\<close>

definition get_field ::
  "(string \<times> field) list \<Rightarrow> data_proxy \<Rightarrow> string \<Rightarrow> (string \<Rightarrow> error) \<Rightarrow>
   error + (string \<times> field)" where
  "get_field flds dp name to_raise =
     (case map_of flds name of
        None \<Rightarrow> Inl (to_raise name)
      | Some f \<Rightarrow>
          if name \<in> not_loaded_fields dp then Inl (FieldNotLoadedError name)
          else Inr (storage_key name f, f))"

definition get ::
  "(string \<times> field) list \<Rightarrow> data_proxy \<Rightarrow> string \<Rightarrow> (string \<Rightarrow> error) \<Rightarrow> error + val" where
  "get flds dp name to_raise =
     ebind (get_field flds dp name to_raise) (\<lambda>(name', _). getitem (data dp) name')"

definition set_dp ::
  "(string \<times> field) list \<Rightarrow> data_proxy \<Rightarrow> string \<Rightarrow> val \<Rightarrow> (string \<Rightarrow> error) \<Rightarrow>
   error + data_proxy" where
  "set_dp flds dp name v to_raise =
     ebind (get_field flds dp name to_raise) (\<lambda>(name', f).
       if v = VNone \<and> \<not> allow_none f
       then Inl (ValidationError (Msgs [error_messages f ''null'']))
       else ebind (if v \<noteq> VNone
                   then (case deserialize_hook f v of
                           Inl ms \<Rightarrow> Inl (ValidationError (Msgs ms))
                         | Inr v' \<Rightarrow> Inr v')
                   else Inr v) (\<lambda>v'.
              Inr (mark_as_modified (dp\<lparr>data := AList.update name' v' (data dp)\<rparr>) name')))"

definition delete_dp ::
  "(string \<times> field) list \<Rightarrow> data_proxy \<Rightarrow> string \<Rightarrow> (string \<Rightarrow> error) \<Rightarrow>
   error + data_proxy" where
  "delete_dp flds dp name to_raise =
     ebind (get_field flds dp name to_raise) (\<lambda>(name', f).
       Inr (mark_as_modified (dp\<lparr>data := AList.update name' (missing f) (data dp)\<rparr>) name'))"

text \<open>
  \<open>get_by_mongo_name\<close> and \<open>set_by_mongo_name\<close>. The latter stores the value before it
  checks the field, so it returns the new state also when it raises.
\<close>

definition get_by_mongo_name ::
  "(string \<times> field) list \<Rightarrow> data_proxy \<Rightarrow> string \<Rightarrow> error + val" where
  "get_by_mongo_name flds dp name =
     ebind (getitem (data dp) name) (\<lambda>v.
     ebind (getitem (fields_from_mongo_key flds) name) (\<lambda>(lname, f).
       if lname \<in> not_loaded_fields dp then Inl (FieldNotLoadedError name) else Inr v))"

definition set_by_mongo_name ::
  "(string \<times> field) list \<Rightarrow> data_proxy \<Rightarrow> string \<Rightarrow> val \<Rightarrow> data_proxy \<times> (error + unit)" where
  "set_by_mongo_name flds dp name v =
     (let dp1 = dp\<lparr>data := AList.update name v (data dp)\<rparr> in
      case getitem (fields_from_mongo_key flds) name of
        Inl e \<Rightarrow> (dp1, Inl e)
      | Inr (lname, f) \<Rightarrow>
          if lname \<in> not_loaded_fields dp1 then (dp1, Inl (FieldNotLoadedError name))
          else (mark_as_modified dp1 name, Inr ()))"

text \<open>
  \<open>get_modified_fields\<close>: the logical names of the modified fields. The source builds a
  Python set; the names are kept here in the declared order of the fields.
\<close>

fun get_modified_fields_loop ::
  "(string \<times> field) list \<Rightarrow> data_proxy \<Rightarrow> error + string list" where
  "get_modified_fields_loop [] dp = Inr []"
| "get_modified_fields_loop ((name, f) # fs) dp =
     (let value_name = storage_key name f in
      case getitem (data dp) value_name of
        Inl e \<Rightarrow> Inl e
      | Inr v \<Rightarrow>
         (case (if value_name \<in> modified_data dp then Inr True
                else if is_data_object v then val_is_modified v else Inr False) of
            Inl e \<Rightarrow> Inl e
          | Inr b \<Rightarrow>
             (case get_modified_fields_loop fs dp of
                Inl e \<Rightarrow> Inl e
              | Inr ns \<Rightarrow> Inr (if b then name # ns else ns))))"

definition get_modified_fields ::
  "(string \<times> field) list \<Rightarrow> data_proxy \<Rightarrow> error + string list" where
  "get_modified_fields flds dp = get_modified_fields_loop flds dp"

definition is_modified_dp :: "data_proxy \<Rightarrow> error + bool" where
  "is_modified_dp dp =
     (if modified_data dp \<noteq> {} then Inr True else values_any_modified (data dp))"

text \<open>\<open>_to_mongo\<close>: the full payload of an insert.\<close>

fun to_mongo_loop ::
  "(string \<times> (string \<times> field)) list \<Rightarrow> (string \<times> val) list \<Rightarrow>
   (string \<times> val) list \<Rightarrow> error + (string \<times> val) list" where
  "to_mongo_loop fmk [] mongo_data = Inr mongo_data"
| "to_mongo_loop fmk ((k, v) # kvs) mongo_data =
     (case getitem fmk k of
        Inl e \<Rightarrow> Inl e
      | Inr (lname, f) \<Rightarrow>
          (let v' = serialize_to_mongo f v in
           if v' \<noteq> Missing then to_mongo_loop fmk kvs (AList.update k v' mongo_data)
           else to_mongo_loop fmk kvs mongo_data))"

definition to_mongo_insert ::
  "(string \<times> field) list \<Rightarrow> data_proxy \<Rightarrow> error + (string \<times> val) list" where
  "to_mongo_insert flds dp = to_mongo_loop (fields_from_mongo_key flds) (data dp) []"

text \<open>
  \<open>_to_mongo_update\<close>: the \<open>$set\<close> and \<open>$unset\<close> parts of an update; \<open>None\<close> when both are
  empty (\<open>return mongo_data or None\<close>).
\<close>

datatype update_payload = UpdatePayload (set_data: "(string \<times> val) list") (unset_data: "string list")

fun to_mongo_update_loop ::
  "(string \<times> field) list \<Rightarrow> data_proxy \<Rightarrow> string list \<Rightarrow> update_payload \<Rightarrow>
   error + update_payload" where
  "to_mongo_update_loop flds dp [] p = Inr p"
| "to_mongo_update_loop flds dp (n # ns) p =
     (case getitem flds n of
        Inl e \<Rightarrow> Inl e
      | Inr f \<Rightarrow>
          (let name = storage_key n f in
           case getitem (data dp) name of
             Inl e \<Rightarrow> Inl e
           | Inr x \<Rightarrow>
               (let v = serialize_to_mongo f x in
                if v = Missing
                then to_mongo_update_loop flds dp ns
                       (UpdatePayload (set_data p) (unset_data p @ [name]))
                else to_mongo_update_loop flds dp ns
                       (UpdatePayload (AList.update name v (set_data p)) (unset_data p)))))"

definition to_mongo_update ::
  "(string \<times> field) list \<Rightarrow> data_proxy \<Rightarrow> error + update_payload option" where
  "to_mongo_update flds dp =
     ebind (get_modified_fields flds dp) (\<lambda>names.
     ebind (to_mongo_update_loop flds dp names (UpdatePayload [] [])) (\<lambda>p.
       Inr (if set_data p = [] \<and> unset_data p = [] then None else Some p)))"

definition to_mongo :: "(string \<times> field) list \<Rightarrow> data_proxy \<Rightarrow> bool \<Rightarrow>
    error + ((string \<times> val) list + update_payload option)" where
  "to_mongo flds dp update =
     (if update then ebind (to_mongo_update flds dp) (\<lambda>p. Inr (Inr p))
      else ebind (to_mongo_insert flds dp) (\<lambda>d. Inr (Inl d)))"

section \<open>Query mapping (\<open>query_mapper.py\<close>, \<open>frameworks/tools.py\<close>)\<close>

text \<open>\<open>entry.split('.')\<close> and \<open>'.'.join(mapped)\<close>.\<close>

fun split_dots :: "string \<Rightarrow> string list" where
  "split_dots [] = [[]]"
| "split_dots (c # cs) =
     (if c = CHR ''.'' then [] # split_dots cs
      else (case split_dots cs of [] \<Rightarrow> [[c]] | w # ws \<Rightarrow> (c # w) # ws))"

fun join_dots :: "string list \<Rightarrow> string" where
  "join_dots [] = []"
| "join_dots [w] = w"
| "join_dots (w # ws) = w @ ''.'' @ join_dots ws"

text \<open>
  A query (a filter): a dictionary, a list (or tuple), or any other value (a scalar, an
  identifier, \<open>None\<close>).
\<close>

datatype query =
    QDict "(string \<times> query) list"
  | QList "query list"
  | QVal val

text \<open>\<open>map_entry\<close>: \<open>fields.get(entry)\<close>, then \<open>getattr(field, 'attribute', None) or entry\<close>.\<close>

definition map_entry ::
  "string \<Rightarrow> (string \<times> field) list \<Rightarrow> string \<times> (string \<times> field) list" where
  "map_entry entry flds =
     (case map_of flds entry of
        None \<Rightarrow> (entry, flds)
      | Some field \<Rightarrow>
          (storage_key entry field,
           (case kind field of
              ListField container \<Rightarrow>
                (case kind container of EmbeddedField fs \<Rightarrow> fs | _ \<Rightarrow> flds)
            | EmbeddedField fs \<Rightarrow> fs
            | Plain \<Rightarrow> flds)))"

fun map_sub_entries ::
  "string list \<Rightarrow> (string \<times> field) list \<Rightarrow> string list \<times> (string \<times> field) list" where
  "map_sub_entries [] flds = ([], flds)"
| "map_sub_entries (sub_entry # rest) flds =
     (case map_entry sub_entry flds of
        (mapped_sub_entry, flds') \<Rightarrow>
          (case map_sub_entries rest flds' of
             (mapped, flds'') \<Rightarrow> (mapped_sub_entry # mapped, flds'')))"

definition map_entry_with_dots ::
  "string \<Rightarrow> (string \<times> field) list \<Rightarrow> string \<times> (string \<times> field) list" where
  "map_entry_with_dots entry flds =
     (case map_sub_entries (split_dots entry) flds of
        (mapped, flds') \<Rightarrow> (join_dots mapped, flds'))"

fun map_query :: "query \<Rightarrow> (string \<times> field) list \<Rightarrow> query"
  and map_query_items ::
    "(string \<times> query) list \<Rightarrow> (string \<times> field) list \<Rightarrow> (string \<times> query) list \<Rightarrow>
     (string \<times> query) list"
  and map_query_list :: "query list \<Rightarrow> (string \<times> field) list \<Rightarrow> query list" where
  "map_query (QDict kvs) flds = QDict (map_query_items kvs flds [])"
| "map_query (QList xs) flds = QList (map_query_list xs flds)"
| "map_query (QVal v) flds = QVal v"
| "map_query_items [] flds mapped_query = mapped_query"
| "map_query_items (kv # kvs) flds mapped_query =
     map_query_items kvs flds
       (AList.update (fst (map_entry_with_dots (fst kv) flds))
          (map_query (snd kv) (snd (map_entry_with_dots (fst kv) flds))) mapped_query)"
| "map_query_list [] flds = []"
| "map_query_list (x # xs) flds = map_query x flds # map_query_list xs flds"



section \<open>Indexes (\<open>indexes.py\<close>)\<close>

text \<open>
  pymongo's \<open>ASCENDING\<close>, \<open>DESCENDING\<close>, \<open>TEXT\<close> and \<open>HASHED\<close>. An element of a key tuple is
  a string or one of these; a key of an index is a pair of them.
\<close>

datatype direction = ASCENDING | DESCENDING | TEXT | HASHED

datatype key_atom = KStr string | KDir direction

datatype key_spec = KeyStr string | KeyTuple "key_atom list"

text \<open>
  pymongo's \<open>IndexModel\<close>: its \<open>document\<close> holds the keys, the name (generated from the
  keys when none is given) and the other options.
\<close>

record index_model =
  index_key :: "(key_atom \<times> key_atom) list"
  index_name :: string
  index_args :: "(string \<times> val) list"

datatype index_spec =
    IxModel index_model
  | IxList "key_spec list"
  | IxStr string
  | IxDict "key_spec list option" "(string \<times> val) list"
  | IxOther

fun explicit_key :: "key_spec \<Rightarrow> error + (key_atom \<times> key_atom)" where
  "explicit_key (KeyTuple index) =
     (case index of
        [k, d] \<Rightarrow> Inr (k, d)
      | _ \<Rightarrow> Inl (AssertionError ''Must be a (`key`, `direction`) tuple''))"
| "explicit_key (KeyStr index) =
     (case index of
        [] \<Rightarrow> Inr (KStr index, KDir ASCENDING)
      | c # rest \<Rightarrow>
          if c = CHR ''+'' then Inr (KStr rest, KDir ASCENDING)
          else if c = CHR ''-'' then Inr (KStr rest, KDir DESCENDING)
          else if c = CHR ''$'' then Inr (KStr rest, KDir TEXT)
          else if c = CHR ''#'' then Inr (KStr rest, KDir HASHED)
          else Inr (KStr index, KDir ASCENDING))"

fun explicit_keys :: "key_spec list \<Rightarrow> error + (key_atom \<times> key_atom) list" where
  "explicit_keys [] = Inr []"
| "explicit_keys (e # es) =
     (case explicit_key e of
        Inl err \<Rightarrow> Inl err
      | Inr k \<Rightarrow> (case explicit_keys es of Inl err \<Rightarrow> Inl err | Inr ks \<Rightarrow> Inr (k # ks)))"

text \<open>
  The name pymongo gives an index that has none:
  \<open>"_".join(["%s_%s" % item for item in keys])\<close>.
\<close>

fun key_atom_str :: "key_atom \<Rightarrow> string" where
  "key_atom_str (KStr s) = s"
| "key_atom_str (KDir ASCENDING) = ''1''"
| "key_atom_str (KDir DESCENDING) = ''-1''"
| "key_atom_str (KDir TEXT) = ''text''"
| "key_atom_str (KDir HASHED) = ''hashed''"

fun join_underscore :: "string list \<Rightarrow> string" where
  "join_underscore [] = []"
| "join_underscore [w] = w"
| "join_underscore (w # ws) = w @ ''_'' @ join_underscore ws"

definition gen_index_name :: "(key_atom \<times> key_atom) list \<Rightarrow> string" where
  "gen_index_name keys =
     join_underscore (map (\<lambda>(k, d). key_atom_str k @ ''_'' @ key_atom_str d) keys)"

text \<open>\<open>IndexModel(keys, **args)\<close>.\<close>

definition IndexModel :: "(key_atom \<times> key_atom) list \<Rightarrow> (string \<times> val) list \<Rightarrow> index_model" where
  "IndexModel keys args =
     \<lparr>index_key = keys,
      index_name = (case map_of args ''name'' of Some (VStr n) \<Rightarrow> n | _ \<Rightarrow> gen_index_name keys),
      index_args = filter (\<lambda>(k, v). k \<noteq> ''name'') args\<rparr>"

definition parse_index :: "index_spec \<Rightarrow> string option \<Rightarrow> error + index_model" where
  "parse_index index base_compound_field =
     ebind (case index of
              IxModel m \<Rightarrow> Inr (index_key m, (''name'', VStr (index_name m)) # index_args m)
            | IxList es \<Rightarrow> ebind (explicit_keys es) (\<lambda>keys. Inr (keys, []))
            | IxStr s \<Rightarrow> ebind (explicit_key (KeyStr s)) (\<lambda>k. Inr ([k], []))
            | IxDict None args \<Rightarrow>
                Inl (AssertionError ''Index passed as dict must have a `key` entry'')
            | IxDict (Some es) args \<Rightarrow> ebind (explicit_keys es) (\<lambda>keys. Inr (keys, args))
            | IxOther \<Rightarrow>
                Inl (TypeError
                  ''Index type must be <str>, <list>, <dict> or <pymongo.IndexModel>''))
       (\<lambda>(keys, args).
          (case base_compound_field of
             None \<Rightarrow> Inr (IndexModel keys args)
           | Some b \<Rightarrow>
               if b = [] then Inr (IndexModel keys args)
               else ebind (explicit_key (KeyStr b)) (\<lambda>k. Inr (IndexModel (keys @ [k]) args))))"

section \<open>The builder (\<open>builder.py\<close>, \<open>schema.py\<close>)\<close>

text \<open>
  \<open>DocumentOpts\<close> and a document implementation (its name, the fields of its schema and
  its options). \<open>offspring\<close> is a set of implementations in the source; it is the list of
  their names, in the order in which the set is iterated.
\<close>

record document_opts =
  collection_name :: "string option"
  abstract :: bool
  allow_inheritance :: bool
  indexes :: "index_model list"
  is_child :: bool
  strict :: bool
  offspring :: "string list"

record implementation =
  cls_name :: string
  schema_fields :: "(string \<times> field) list"
  opts :: document_opts

text \<open>
  A base class of a template, once converted: a document implementation, or a class
  that is none (a mixin). \<open>DocumentImplementation\<close> itself is an abstract implementation
  with no field.
\<close>

datatype base = DocBase implementation | OtherBase

definition DocumentImplementation :: implementation where
  "DocumentImplementation =
     \<lparr>cls_name = ''DocumentImplementation'', schema_fields = [],
      opts = \<lparr>collection_name = None, abstract = True, allow_inheritance = True,
              indexes = [], is_child = True, strict = True, offspring = []\<rparr>\<rparr>"

text \<open>\<open>_is_child\<close>.\<close>

definition is_child_bases :: "base list \<Rightarrow> bool" where
  "is_child_bases bases =
     (\<exists>b \<in> set bases. case b of DocBase i \<Rightarrow> \<not> abstract (opts i) | OtherBase \<Rightarrow> False)"

text \<open>
  The field classes used by the builder. \<open>default_error_messages\<close> holds the messages of
  marshmallow and those that \<open>BaseField\<close> adds.
\<close>

definition default_error_messages :: "string \<Rightarrow> string" where
  "default_error_messages k =
     (if k = ''null'' then ''Field may not be null.''
      else if k = ''required'' then ''Missing data for required field.''
      else if k = ''unique'' then ''Field value must be unique.''
      else if k = ''unique_compound'' then ''Values of fields {fields} must be unique together.''
      else k)"

definition string_hook :: "val \<Rightarrow> string list + val" where
  "string_hook v = (case v of VStr s \<Rightarrow> Inr (VStr s) | _ \<Rightarrow> Inl [''Not a valid string.''])"

definition integer_hook :: "val \<Rightarrow> string list + val" where
  "integer_hook v = (case v of VInt i \<Rightarrow> Inr (VInt i) | _ \<Rightarrow> Inl [''Not a valid integer.''])"

definition any_hook :: "val \<Rightarrow> string list + val" where
  "any_hook v = Inr v"

definition StrField :: "string option \<Rightarrow> bool \<Rightarrow> bool \<Rightarrow> bool \<Rightarrow> bool \<Rightarrow> val \<Rightarrow> field" where
  "StrField attr req an uniq dump dflt =
     Field attr req an uniq dump dflt default_error_messages string_hook
       (\<lambda>v. v) (\<lambda>v. v) [] Plain"

definition IntField :: "string option \<Rightarrow> bool \<Rightarrow> bool \<Rightarrow> bool \<Rightarrow> bool \<Rightarrow> val \<Rightarrow> field" where
  "IntField attr req an uniq dump dflt =
     Field attr req an uniq dump dflt default_error_messages integer_hook
       (\<lambda>v. v) (\<lambda>v. v) [] Plain"

definition ObjectIdField :: "string option \<Rightarrow> bool \<Rightarrow> bool \<Rightarrow> bool \<Rightarrow> bool \<Rightarrow> val \<Rightarrow> field" where
  "ObjectIdField attr req an uniq dump dflt =
     Field attr req an uniq dump dflt default_error_messages any_hook
       (\<lambda>v. v) (\<lambda>v. v) [] Plain"

text \<open>\<open>on_need_add_id_field\<close> and \<open>add_child_field\<close> of \<open>schema.py\<close>.\<close>

definition find_id_field :: "(string \<times> field) list \<Rightarrow> (string \<times> field) option" where
  "find_id_field flds =
     find (\<lambda>(name, field).
             (name = ''_id'' \<and> (attribute field = None \<or> attribute field = Some []))
             \<or> attribute field = Some ''_id'') flds"

definition on_need_add_id_field ::
  "(string \<times> field) list list \<Rightarrow> (string \<times> field) list \<Rightarrow> (string \<times> field) list" where
  "on_need_add_id_field bases flds =
     (if \<exists>schema \<in> set bases. find_id_field schema \<noteq> None then flds
      else if find_id_field flds = None
      then AList.update ''id'' (ObjectIdField (Some ''_id'') False False False True Missing) flds
      else flds)"

definition add_child_field :: "string \<Rightarrow> (string \<times> field) list \<Rightarrow> (string \<times> field) list" where
  "add_child_field name flds =
     AList.update ''cls'' (StrField (Some ''_cls'') False False False True (VStr name)) flds"

text \<open>
  \<open>map_to_field\<close> of \<open>ListField\<close> and \<open>EmbeddedField\<close>: the calls of \<open>func\<close>, in order, as
  triples (mongo path, path, field). The other fields have no \<open>map_to_field\<close>.
\<close>

fun map_to_field :: "field \<Rightarrow> string \<Rightarrow> string \<Rightarrow> (string \<times> string \<times> field) list"
  and map_to_field_embedded ::
    "(string \<times> field) list \<Rightarrow> string \<Rightarrow> string \<Rightarrow> (string \<times> string \<times> field) list" where
  "map_to_field (Field a r an u d m em dh sh dmh iov Plain) mongo_path path = []"
| "map_to_field (Field a r an u d m em dh sh dmh iov (ListField container)) mongo_path path =
     (mongo_path, path, container) # map_to_field container mongo_path path"
| "map_to_field (Field a r an u d m em dh sh dmh iov (EmbeddedField fs)) mongo_path path =
     map_to_field_embedded fs mongo_path path"
| "map_to_field_embedded [] mongo_path path = []"
| "map_to_field_embedded (nf # fs) mongo_path path =
     (mongo_path @ ''.'' @ storage_key (fst nf) (snd nf), path @ ''.'' @ fst nf, snd nf)
       # map_to_field (snd nf) (mongo_path @ ''.'' @ storage_key (fst nf) (snd nf))
           (path @ ''.'' @ fst nf)
       @ map_to_field_embedded fs mongo_path path"

text \<open>
  \<open>_collect_indexes\<close>. \<open>parse_field\<close> is its inner function; \<open>visited_fields\<close> lists the
  calls of \<open>parse_field\<close> that the final loop makes, the first argument of the top-level
  calls being \<open>name or field.attribute\<close>.
\<close>

definition parse_field ::
  "bool \<Rightarrow> string \<times> string \<times> field \<Rightarrow> (error + index_model) option" where
  "parse_field is_child_flag call =
     (case call of (mongo_path, path, field) \<Rightarrow>
        if unique field
        then Some (parse_index
               (IxDict (Some ([KeyStr mongo_path] @ (if is_child_flag then [KeyStr ''_cls''] else [])))
                  ([(''unique'', VBool True)]
                   @ (if \<not> required field \<or> allow_none field
                      then [(''sparse'', VBool True)] else [])))
               None)
        else None)"

definition name_or_attribute :: "string \<Rightarrow> field \<Rightarrow> string" where
  "name_or_attribute name field =
     (if name \<noteq> [] then name else (case attribute field of None \<Rightarrow> [] | Some a \<Rightarrow> a))"

fun visited_fields :: "(string \<times> field) list \<Rightarrow> (string \<times> string \<times> field) list" where
  "visited_fields [] = []"
| "visited_fields ((name, field) # rest) =
     (name_or_attribute name field, name, field)
       # map_to_field field (name_or_attribute name field) name
       @ visited_fields rest"

fun sequence_err :: "(error + 'a) list \<Rightarrow> error + 'a list" where
  "sequence_err [] = Inr []"
| "sequence_err (r # rs) =
     (case r of Inl e \<Rightarrow> Inl e
      | Inr x \<Rightarrow> (case sequence_err rs of Inl e \<Rightarrow> Inl e | Inr xs \<Rightarrow> Inr (x # xs)))"

definition inherited_indexes :: "base list \<Rightarrow> index_model list" where
  "inherited_indexes bases =
     concat (map (\<lambda>b. case b of DocBase i \<Rightarrow> indexes (opts i) | OtherBase \<Rightarrow> []) bases)"

definition custom_indexes :: "bool \<Rightarrow> index_spec list \<Rightarrow> error + index_model list" where
  "custom_indexes is_child_flag meta_indexes =
     sequence_err (map (\<lambda>x. parse_index x (if is_child_flag then Some ''_cls'' else None))
                       meta_indexes)"

definition unique_field_indexes ::
  "bool \<Rightarrow> (string \<times> field) list \<Rightarrow> error + index_model list" where
  "unique_field_indexes is_child_flag schema_nmspc =
     sequence_err (List.map_filter (parse_field is_child_flag) (visited_fields schema_nmspc))"

definition collect_indexes ::
  "index_spec list \<Rightarrow> (string \<times> field) list \<Rightarrow> base list \<Rightarrow> error + index_model list" where
  "collect_indexes meta_indexes schema_nmspc bases =
     (let is_child_flag = is_child_bases bases;
          inherited = inherited_indexes bases
      in ebind (custom_indexes is_child_flag meta_indexes) (\<lambda>custom.
         ebind (if is_child_flag then ebind (parse_index (IxStr ''_cls'') None) (\<lambda>i. Inr [i])
                else Inr []) (\<lambda>cls_index.
         ebind (unique_field_indexes is_child_flag schema_nmspc) (\<lambda>uniques.
           Inr (inherited @ custom @ cls_index @ uniques)))))"

text \<open>
  A document template: its name, the fields it declares and the options of its \<open>Meta\<close>
  class (\<open>None\<close> or the default where \<open>Meta\<close> does not set one).
\<close>

record template =
  t_name :: string
  t_fields :: "(string \<times> field) list"
  meta_collection_name :: "string option"
  meta_abstract :: bool
  meta_allow_inheritance :: "bool option"
  meta_strict :: bool
  meta_indexes :: "index_spec list"

text \<open>
  \<open>_build_document_opts\<close>, with the constructor of \<open>DocumentOpts\<close>. The loop over the bases
  checks each document base and inherits its collection name. \<open>camel_to_snake\<close> (two
  regular-expression substitutions) is a parameter.
\<close>

fun inherit_options ::
  "bool \<Rightarrow> base list \<Rightarrow> string option \<Rightarrow> error + string option" where
  "inherit_options abstract_flag [] collection = Inr collection"
| "inherit_options abstract_flag (OtherBase # bases) collection =
     inherit_options abstract_flag bases collection"
| "inherit_options abstract_flag (DocBase b # bases) collection =
     (if \<not> allow_inheritance (opts b)
      then Inl (DocumentDefinitionError ''Document doesn't allow inheritance'')
      else if abstract_flag \<and> \<not> abstract (opts b)
      then Inl (DocumentDefinitionError ''Abstract document should have all it parents abstract'')
      else (case collection_name (opts b) of
              None \<Rightarrow> inherit_options abstract_flag bases collection
            | Some pc \<Rightarrow>
                if pc = [] then inherit_options abstract_flag bases collection
                else if collection \<noteq> None \<and> collection \<noteq> Some []
                then Inl (DocumentDefinitionError
                       ''Cannot redefine collection_name in a child, use abstract instead'')
                else inherit_options abstract_flag bases (Some pc)))"

definition build_document_opts ::
  "(string \<Rightarrow> string) \<Rightarrow> template \<Rightarrow> base list \<Rightarrow> error + document_opts" where
  "build_document_opts camel_to_snake t bases =
     ebind (inherit_options (meta_abstract t) bases (meta_collection_name t)) (\<lambda>collection.
     ebind (if collection \<noteq> None \<and> collection \<noteq> Some []
            then (if meta_abstract t
                  then Inl (DocumentDefinitionError
                         ''Abstract document cannot define collection_name'')
                  else Inr collection)
            else if \<not> meta_abstract t then Inr (Some (camel_to_snake (t_name t)))
            else Inr collection) (\<lambda>collection'.
       let allow = (case meta_allow_inheritance t of None \<Rightarrow> meta_abstract t | Some a \<Rightarrow> a) in
       if meta_abstract t \<and> \<not> allow
       then Inl (DocumentDefinitionError ''Abstract document cannot disable inheritance'')
       else Inr \<lparr>collection_name = (if \<not> meta_abstract t then collection' else None),
                 abstract = meta_abstract t,
                 allow_inheritance = allow,
                 indexes = [],
                 is_child = is_child_bases bases,
                 strict = meta_strict t,
                 offspring = []\<rparr>))"

text \<open>
  \<open>build_document_from_template\<close>: the options, the fields of the schema (those of the
  schemas of the bases, then the template's own, after \<open>on_need_add_id_field\<close> and, for a
  child, \<open>add_child_field\<close>) and the indexes. The registration of the new implementation
  as offspring of its ancestors changes the ancestors and is not part of the result.
\<close>

definition schema_bases :: "base list \<Rightarrow> (string \<times> field) list list" where
  "schema_bases bases =
     concat (map (\<lambda>b. case b of DocBase i \<Rightarrow> [schema_fields i] | OtherBase \<Rightarrow> []) bases)"

definition build_document_from_template ::
  "(string \<Rightarrow> string) \<Rightarrow> template \<Rightarrow> base list \<Rightarrow> error + implementation" where
  "build_document_from_template camel_to_snake t bases =
     ebind (build_document_opts camel_to_snake t bases) (\<lambda>dopts.
       let own = on_need_add_id_field (schema_bases bases) (t_fields t);
           own' = (if is_child dopts then add_child_field (t_name t) own else own);
           flds = dict_of (concat (rev (schema_bases bases)) @ own')
       in ebind (collect_indexes (meta_indexes t) flds bases) (\<lambda>ixs.
            Inr \<lparr>cls_name = t_name t, schema_fields = flds, opts = dopts\<lparr>indexes := ixs\<rparr>\<rparr>))"






section \<open>Documents and \<open>commit\<close> (\<open>document.py\<close>, \<open>frameworks/pymongo.py\<close>)\<close>

record document =
  is_created :: bool
  d_data :: data_proxy

text \<open>\<open>DocumentImplementation.is_modified\<close>, \<open>pk\<close> and \<open>to_mongo\<close>.\<close>

definition is_modified :: "document \<Rightarrow> error + bool" where
  "is_modified doc = (if \<not> is_created doc then Inr True else is_modified_dp (d_data doc))"

definition pk :: "implementation \<Rightarrow> document \<Rightarrow> error + val" where
  "pk cls doc =
     ebind (get_by_mongo_name (schema_fields cls) (d_data doc) ''_id'') (\<lambda>v.
       Inr (if v \<noteq> Missing then v else VNone))"

definition document_to_mongo ::
  "implementation \<Rightarrow> document \<Rightarrow> bool \<Rightarrow>
   error + ((string \<times> val) list + update_payload option)" where
  "document_to_mongo cls doc update =
     (if update \<and> \<not> is_created doc
      then Inl (NotCreatedError ''Must create the document before using update'')
      else to_mongo (schema_fields cls) (d_data doc) update)"

text \<open>
  \<open>required_validate\<close> of the data proxy, with the \<open>_required_validate\<close> of \<open>ListField\<close> and
  \<open>EmbeddedField\<close>. \<open>required_errors\<close> computes the dictionary \<open>errors\<close>.
\<close>

fun field_required_validate :: "field \<Rightarrow> val \<Rightarrow> error + unit"
  and list_required_validate :: "field \<Rightarrow> val list \<Rightarrow> nat \<Rightarrow> error + (nat \<times> messages) list"
  and required_errors ::
    "(string \<times> field) list \<Rightarrow> (string \<times> val) list \<Rightarrow> error + (string \<times> messages) list" where
  "field_required_validate (Field a r an u d m em dh sh dmh iov Plain) v = Inr ()"
| "field_required_validate (Field a r an u d m em dh sh dmh iov (ListField container)) v =
     (if v = Missing \<or> (case kind container of Plain \<Rightarrow> True | _ \<Rightarrow> False) then Inr ()
      else (case v of
              VList md xs \<Rightarrow>
                (case list_required_validate container xs 0 of
                   Inl e \<Rightarrow> Inl e
                 | Inr errors \<Rightarrow>
                     if errors \<noteq> [] then Inl (ValidationError (MsgIndexed errors)) else Inr ())
            | _ \<Rightarrow> Inl (TypeError ''enumerate'')))"
| "field_required_validate (Field a r an u d m em dh sh dmh iov (EmbeddedField fs)) v =
     (if v \<noteq> Missing
      then (case v of
              VEmb md kvs \<Rightarrow>
                (case required_errors fs kvs of
                   Inl e \<Rightarrow> Inl e
                 | Inr errors \<Rightarrow>
                     if errors \<noteq> [] then Inl (ValidationError (MsgDict errors)) else Inr ())
            | _ \<Rightarrow> Inl (AttributeError ''required_validate''))
      else Inr ())"
| "list_required_validate container [] i = Inr []"
| "list_required_validate container (sub_value # rest) i =
     (case field_required_validate container sub_value of
        Inl (ValidationError ms) \<Rightarrow>
          (case list_required_validate container rest (Suc i) of
             Inl e \<Rightarrow> Inl e | Inr errors \<Rightarrow> Inr ((i, ms) # errors))
      | Inl e \<Rightarrow> Inl e
      | Inr _ \<Rightarrow> list_required_validate container rest (Suc i))"
| "required_errors [] d = Inr []"
| "required_errors (nf # rest) d =
     (case getitem d (storage_key (fst nf) (snd nf)) of
        Inl e \<Rightarrow> Inl e
      | Inr v \<Rightarrow>
          if required (snd nf) \<and> v = Missing
          then (case required_errors rest d of
                  Inl e \<Rightarrow> Inl e
                | Inr errors \<Rightarrow>
                    Inr ((fst nf, Msgs [''Missing data for required field.'']) # errors))
          else (case field_required_validate (snd nf) v of
                  Inl (ValidationError ms) \<Rightarrow>
                    (case required_errors rest d of
                       Inl e \<Rightarrow> Inl e | Inr errors \<Rightarrow> Inr ((fst nf, ms) # errors))
                | Inl e \<Rightarrow> Inl e
                | Inr _ \<Rightarrow> required_errors rest d))"

definition required_validate :: "(string \<times> field) list \<Rightarrow> data_proxy \<Rightarrow> error + unit" where
  "required_validate flds dp =
     ebind (required_errors flds (data dp)) (\<lambda>errors.
       if errors \<noteq> [] then Inl (ValidationError (MsgDict errors)) else Inr ())"

text \<open>
  What a commit does, in order: the hooks it calls, the end of the required-field
  validation (with whether it passed), each run of an I/O validator (with the name of the
  field and whether it passed), the end of the I/O validation (with whether it passed)
  and the storage operations it issues.
\<close>

datatype event =
    PreInsert
  | PreUpdate
  | PostInsert
  | PostUpdate
  | RequiredValidated bool
  | IoValidator string bool
  | IoValidated bool
  | InsertOne "(string \<times> val) list"
  | UpdateOne query "update_payload option"

text \<open>
  \<open>_run_validators\<close>, for a list of validators: the validators run in turn; the messages
  of those that raise a \<open>ValidationError\<close> are collected in \<open>errors\<close>; any other exception
  leaves the loop at once.
\<close>

fun run_validators ::
  "(val \<Rightarrow> validation) list \<Rightarrow> string \<Rightarrow> val \<Rightarrow> event list \<times> (error + string list)" where
  "run_validators [] name v = ([], Inr [])"
| "run_validators (validator # rest) name v =
     (case validator v of
        Passed \<Rightarrow>
          (case run_validators rest name v of (tr, r) \<Rightarrow> (IoValidator name True # tr, r))
      | Invalid ms \<Rightarrow>
          (case run_validators rest name v of
             (tr, Inl e) \<Rightarrow> (IoValidator name False # tr, Inl e)
           | (tr, Inr errors) \<Rightarrow> (IoValidator name False # tr, Inr (ms @ errors)))
      | Raised e \<Rightarrow> ([IoValidator name False], Inl e))"

text \<open>
  \<open>if field.io_validate: _run_validators(field.io_validate, field, value)\<close>, with the
  \<open>ValidationError\<close> that \<open>_run_validators\<close> raises when \<open>errors\<close> is not empty: the result is
  its messages, or \<open>None\<close> when nothing is raised.
\<close>

definition run_field_validators ::
  "(val \<Rightarrow> validation) list \<Rightarrow> string \<Rightarrow> val \<Rightarrow> event list \<times> (error + messages option)" where
  "run_field_validators iov name v =
     (if iov \<noteq> []
      then (case run_validators iov name v of
              (tr, Inl e) \<Rightarrow> (tr, Inl e)
            | (tr, Inr errs) \<Rightarrow> (tr, Inr (if errs \<noteq> [] then Some (Msgs errs) else None)))
      else ([], Inr None))"

text \<open>\<open>_list_io_validate\<close>: the loop over the elements.\<close>

fun list_io_validate_loop ::
  "(val \<Rightarrow> validation) list \<Rightarrow> string \<Rightarrow> val list \<Rightarrow> nat \<Rightarrow>
   event list \<times> (error + (nat \<times> messages) list)" where
  "list_io_validate_loop validators name [] i = ([], Inr [])"
| "list_io_validate_loop validators name (e # rest) i =
     (case run_validators validators name e of
        (tr, Inl err) \<Rightarrow> (tr, Inl err)
      | (tr, Inr errs) \<Rightarrow>
          (case list_io_validate_loop validators name rest (Suc i) of
             (tr', Inl err) \<Rightarrow> (tr @ tr', Inl err)
           | (tr', Inr errors) \<Rightarrow>
               (tr @ tr', Inr (if errs \<noteq> [] then (i, Msgs errs) # errors else errors))))"

text \<open>
  \<open>_io_validate_data_proxy\<close>. \<open>field_io_validate\<close> is the body of its \<open>try\<close>: the
  \<open>io_validate_recursive\<close> that \<open>_patch_field\<close> gives a \<open>ListField\<close> and an \<open>EmbeddedField\<close>,
  then the validators of the field; it returns the messages of the \<open>ValidationError\<close>
  that the \<open>except\<close> clause stores under the name of the field, or the other exception
  that leaves the loop. \<open>io_errors\<close> computes the dictionary \<open>errors\<close>; \<open>partial\<close> is \<open>None\<close>
  or the names of the modified fields.
\<close>

fun field_io_validate ::
    "field \<Rightarrow> string \<Rightarrow> val \<Rightarrow> event list \<times> (error + messages option)"
  and io_errors ::
    "(string \<times> field) list \<Rightarrow> (string \<times> val) list \<Rightarrow> string list option \<Rightarrow>
     event list \<times> (error + (string \<times> messages) list)" where
  "field_io_validate (Field a r an u d m em dh sh dmh iov Plain) name v =
     run_field_validators iov name v"
| "field_io_validate (Field a r an u d m em dh sh dmh iov (ListField container)) name v =
     (if io_validate container = [] then run_field_validators iov name v
      else (case v of
              VList md xs \<Rightarrow>
                (case list_io_validate_loop (io_validate container) name xs 0 of
                   (tr, Inl e) \<Rightarrow> (tr, Inl e)
                 | (tr, Inr errors) \<Rightarrow>
                     if errors \<noteq> [] then (tr, Inr (Some (MsgIndexed errors)))
                     else (case run_field_validators iov name v of
                             (tr', r) \<Rightarrow> (tr @ tr', r)))
            | _ \<Rightarrow> ([], Inl (TypeError ''enumerate''))))"
| "field_io_validate (Field a r an u d m em dh sh dmh iov (EmbeddedField fs)) name v =
     (case v of
        VEmb md kvs \<Rightarrow>
          (case io_errors fs kvs None of
             (tr, Inl e) \<Rightarrow> (tr, Inl e)
           | (tr, Inr errors) \<Rightarrow>
               if errors \<noteq> [] then (tr, Inr (Some (MsgDict errors)))
               else (case run_field_validators iov name v of
                       (tr', r) \<Rightarrow> (tr @ tr', r)))
      | _ \<Rightarrow> ([], Inl (AttributeError ''schema'')))"
| "io_errors [] d partial = ([], Inr [])"
| "io_errors (nf # rest) d partial =
     (if (case partial of None \<Rightarrow> False | Some p \<Rightarrow> p \<noteq> [] \<and> fst nf \<notin> set p)
      then io_errors rest d partial
      else (case getitem d (storage_key (fst nf) (snd nf)) of
              Inl e \<Rightarrow> ([], Inl e)
            | Inr v \<Rightarrow>
                if v = Missing then io_errors rest d partial
                else (case field_io_validate (snd nf) (fst nf) v of
                        (tr, Inl e) \<Rightarrow> (tr, Inl e)
                      | (tr, Inr r) \<Rightarrow>
                          (case io_errors rest d partial of
                             (tr', Inl e) \<Rightarrow> (tr @ tr', Inl e)
                           | (tr', Inr errors) \<Rightarrow>
                               (tr @ tr',
                                Inr (case r of None \<Rightarrow> errors
                                     | Some ms \<Rightarrow> (fst nf, ms) # errors))))))"

definition io_validate_data_proxy ::
  "(string \<times> field) list \<Rightarrow> data_proxy \<Rightarrow> string list option \<Rightarrow> event list \<times> (error + unit)" where
  "io_validate_data_proxy flds dp partial =
     (case io_errors flds (data dp) partial of
        (tr, Inl e) \<Rightarrow> (tr, Inl e)
      | (tr, Inr errors) \<Rightarrow>
          (tr, if errors \<noteq> [] then Inl (ValidationError (MsgDict errors)) else Inr ()))"





text \<open>\<open>PyMongoDocument.io_validate\<close>.\<close>

definition document_io_validate ::
  "implementation \<Rightarrow> document \<Rightarrow> bool \<Rightarrow> event list \<times> (error + unit)" where
  "document_io_validate cls doc validate_all =
     (if validate_all then io_validate_data_proxy (schema_fields cls) (d_data doc) None
      else (case get_modified_fields (schema_fields cls) (d_data doc) of
              Inl e \<Rightarrow> ([], Inl e)
            | Inr modified \<Rightarrow>
                io_validate_data_proxy (schema_fields cls) (d_data doc) (Some modified)))"

text \<open>
  The translation of a duplicate-key error (the \<open>except DuplicateKeyError\<close> clause of
  \<open>commit\<close>). \<open>contains sub s\<close> is \<open>sub in s\<close>; \<open>format_fields\<close> is
  \<open>msg.format(fields=keys)\<close> for a message with one \<open>{fields}\<close> placeholder.
\<close>

fun is_prefix :: "string \<Rightarrow> string \<Rightarrow> bool" where
  "is_prefix [] s = True"
| "is_prefix (c # cs) [] = False"
| "is_prefix (c # cs) (x # xs) = (c = x \<and> is_prefix cs xs)"

fun contains :: "string \<Rightarrow> string \<Rightarrow> bool" where
  "contains sub [] = (sub = [])"
| "contains sub (x # xs) = (is_prefix sub (x # xs) \<or> contains sub xs)"

fun find_sub :: "string \<Rightarrow> string \<Rightarrow> nat option" where
  "find_sub sub [] = (if sub = [] then Some 0 else None)"
| "find_sub sub (x # xs) =
     (if is_prefix sub (x # xs) then Some 0
      else (case find_sub sub xs of None \<Rightarrow> None | Some i \<Rightarrow> Some (Suc i)))"

fun join_comma :: "string list \<Rightarrow> string" where
  "join_comma [] = []"
| "join_comma [w] = w"
| "join_comma (w # ws) = w @ '', '' @ join_comma ws"

definition repr_list :: "string list \<Rightarrow> string" where
  "repr_list keys = ''['' @ join_comma (map (\<lambda>k. [CHR 0x27] @ k @ [CHR 0x27]) keys) @ '']''"

definition format_fields :: "string \<Rightarrow> string list \<Rightarrow> string" where
  "format_fields msg keys =
     (case find_sub ''{fields}'' msg of
        None \<Rightarrow> msg
      | Some i \<Rightarrow> take i msg @ repr_list keys @ drop (i + 8) msg)"

fun unique_compound_messages ::
  "(string \<times> field) list \<Rightarrow> string list \<Rightarrow> string list \<Rightarrow> error + (string \<times> messages) list" where
  "unique_compound_messages flds keys [] = Inr []"
| "unique_compound_messages flds keys (k # ks) =
     (case getitem flds k of
        Inl e \<Rightarrow> Inl e
      | Inr f \<Rightarrow>
          (case unique_compound_messages flds keys ks of
             Inl e \<Rightarrow> Inl e
           | Inr ms \<Rightarrow>
               Inr (AList.update k
                      (Msgs [format_fields (error_messages f ''unique_compound'') keys]) ms)))"

definition index_matches :: "string \<Rightarrow> index_model \<Rightarrow> bool" where
  "index_matches errmsg index =
     (contains (''.$'' @ index_name index) errmsg
      \<or> contains ('' '' @ index_name index @ '' '') errmsg)"

definition on_duplicate_key_error :: "implementation \<Rightarrow> string \<Rightarrow> error" where
  "on_duplicate_key_error cls errmsg =
     (case find (index_matches errmsg) (indexes (opts cls)) of
        None \<Rightarrow> DuplicateKeyError errmsg
      | Some index \<Rightarrow>
          (let keys = map (\<lambda>(k, d). key_atom_str k) (index_key index) in
           if length keys = 1
           then (case getitem (schema_fields cls) (keys ! 0) of
                   Inl e \<Rightarrow> e
                 | Inr f \<Rightarrow>
                     ValidationError (MsgDict [(keys ! 0, Msgs [error_messages f ''unique''])]))
           else (case unique_compound_messages (schema_fields cls) (sort keys) (sort keys) of
                   Inl e \<Rightarrow> e
                 | Inr ms \<Rightarrow> ValidationError (MsgDict ms))))"

text \<open>
  The collaborators of \<open>commit\<close>: the hooks of the document class, which may change the
  document and may raise (\<open>pre_update\<close> returns the additional filter, \<open>None\<close> or a
  dictionary), and the two operations of the collection, which return the inserted
  identifier and the number of matched documents, or raise.
\<close>

record env =
  pre_insert :: "document \<Rightarrow> document \<times> (error + unit)"
  pre_update :: "document \<Rightarrow> document \<times> (error + (string \<times> query) list option)"
  post_insert :: "document \<Rightarrow> val \<Rightarrow> document \<times> (error + unit)"
  post_update :: "document \<Rightarrow> nat \<Rightarrow> document \<times> (error + unit)"
  insert_one :: "(string \<times> val) list \<Rightarrow> error + val"
  update_one :: "query \<Rightarrow> update_payload option \<Rightarrow> error + nat"

datatype commit_result = NoOp | InsertOneResult val | UpdateResult nat

text \<open>
  A step of \<open>commit\<close> yields the events so far, the state of the document and either the
  exception raised or a value; \<open>obind\<close> runs the next step unless an exception was raised.
\<close>

type_synonym 'a outcome = "event list \<times> document \<times> (error + 'a)"

definition obind :: "'a outcome \<Rightarrow> (document \<Rightarrow> 'a \<Rightarrow> 'b outcome) \<Rightarrow> 'b outcome" where
  "obind m f =
     (case m of
        (tr, doc, Inl e) \<Rightarrow> (tr, doc, Inl e)
      | (tr, doc, Inr x) \<Rightarrow> (case f doc x of (tr', doc', r) \<Rightarrow> (tr @ tr', doc', r)))"

definition merge_conditions ::
  "(string \<times> query) list option \<Rightarrow> val \<Rightarrow> (string \<times> query) list" where
  "merge_conditions conditions pkv =
     AList.update ''_id'' (QVal pkv)
       (case conditions of None \<Rightarrow> [] | Some c \<Rightarrow> c)"

definition merge_additional_filter ::
  "implementation \<Rightarrow> (string \<times> query) list \<Rightarrow> (string \<times> query) list option \<Rightarrow>
   (string \<times> query) list" where
  "merge_additional_filter cls query additional_filter =
     (case additional_filter of
        None \<Rightarrow> query
      | Some af \<Rightarrow>
          if af = [] then query
          else fold (\<lambda>(k, v) q. AList.update k v q)
                 (map_query_items af (schema_fields cls) []) query)"

definition step_required_validate :: "implementation \<Rightarrow> document \<Rightarrow> unit outcome" where
  "step_required_validate cls doc =
     (case required_validate (schema_fields cls) (d_data doc) of
        Inl e \<Rightarrow> ([RequiredValidated False], doc, Inl e)
      | Inr u \<Rightarrow> ([RequiredValidated True], doc, Inr u))"

definition step_io_validate :: "implementation \<Rightarrow> bool \<Rightarrow> document \<Rightarrow> unit outcome" where
  "step_io_validate cls io_validate_all doc =
     (case document_io_validate cls doc io_validate_all of
        (tr, Inl e) \<Rightarrow> (tr @ [IoValidated False], doc, Inl e)
      | (tr, Inr u) \<Rightarrow> (tr @ [IoValidated True], doc, Inr u))"

definition commit_update ::
  "env \<Rightarrow> implementation \<Rightarrow> bool \<Rightarrow> (string \<times> query) list option \<Rightarrow> document \<Rightarrow>
   commit_result outcome" where
  "commit_update e cls io_validate_all conditions doc0 =
     obind ([], doc0, pk cls doc0) (\<lambda>doc1 pkv.
     obind (case pre_update e doc1 of (d, r) \<Rightarrow> ([PreUpdate], d, r)) (\<lambda>doc2 additional_filter.
     obind (step_required_validate cls doc2) (\<lambda>doc3 _.
     obind (step_io_validate cls io_validate_all doc3) (\<lambda>doc4 _.
     obind ([], doc4, to_mongo_update (schema_fields cls) (d_data doc4)) (\<lambda>doc5 payload.
     obind ([UpdateOne (QDict (merge_additional_filter cls (merge_conditions conditions pkv)
                                 additional_filter)) payload],
            doc5,
            update_one e (QDict (merge_additional_filter cls (merge_conditions conditions pkv)
                                   additional_filter)) payload) (\<lambda>doc6 matched_count.
       if matched_count \<noteq> 1 then ([], doc6, Inl (UpdateError matched_count))
       else obind (case post_update e doc6 matched_count of (d, r) \<Rightarrow> ([PostUpdate], d, r))
              (\<lambda>doc7 _. ([], doc7, Inr (UpdateResult matched_count)))))))))"

definition commit_insert ::
  "env \<Rightarrow> implementation \<Rightarrow> bool \<Rightarrow> document \<Rightarrow> commit_result outcome" where
  "commit_insert e cls io_validate_all doc0 =
     obind (case pre_insert e doc0 of (d, r) \<Rightarrow> ([PreInsert], d, r)) (\<lambda>doc1 _.
     obind (step_required_validate cls doc1) (\<lambda>doc2 _.
     obind (step_io_validate cls io_validate_all doc2) (\<lambda>doc3 _.
     obind ([], doc3, to_mongo_insert (schema_fields cls) (d_data doc3)) (\<lambda>doc4 payload.
     obind ([InsertOne payload], doc4, insert_one e payload) (\<lambda>doc5 inserted_id.
     obind (case set_by_mongo_name (schema_fields cls) (d_data doc5) ''_id'' inserted_id of
              (dp, r) \<Rightarrow> ([], doc5\<lparr>d_data := dp\<rparr>, r)) (\<lambda>doc6 _.
     obind (case post_insert e (doc6\<lparr>is_created := True\<rparr>) inserted_id of
              (d, r) \<Rightarrow> ([PostInsert], d, r)) (\<lambda>doc7 _.
       ([], doc7, Inr (InsertOneResult inserted_id)))))))))"

text \<open>The \<open>try\<close> block of \<open>commit\<close>.\<close>

definition commit_try ::
  "env \<Rightarrow> implementation \<Rightarrow> bool \<Rightarrow> (string \<times> query) list option \<Rightarrow> document \<Rightarrow>
   commit_result outcome" where
  "commit_try e cls io_validate_all conditions doc =
     (if is_created doc
      then obind ([], doc, is_modified doc) (\<lambda>doc' modified.
             if modified then commit_update e cls io_validate_all conditions doc'
             else ([], doc', Inr NoOp))
      else if (case conditions of None \<Rightarrow> False | Some c \<Rightarrow> c \<noteq> [])
      then ([], doc,
            Inl (RuntimeError ''Document must already exist in database to use `conditions`.''))
      else commit_insert e cls io_validate_all doc)"

text \<open>\<open>PyMongoDocument.commit\<close>.\<close>

definition commit ::
  "env \<Rightarrow> implementation \<Rightarrow> bool \<Rightarrow> (string \<times> query) list option \<Rightarrow> document \<Rightarrow>
   commit_result outcome" where
  "commit e cls io_validate_all conditions doc =
     (case commit_try e cls io_validate_all conditions doc of
        (tr, doc', Inl (DuplicateKeyError errmsg)) \<Rightarrow>
          (tr, doc', Inl (on_duplicate_key_error cls errmsg))
      | (tr, doc', Inl err) \<Rightarrow> (tr, doc', Inl err)
      | (tr, doc', Inr ret) \<Rightarrow>
          (case clear_modified (d_data doc') of
             Inl err \<Rightarrow> (tr, doc', Inl err)
           | Inr dp \<Rightarrow> (tr, doc'\<lparr>d_data := dp\<rparr>, Inr ret)))"


text \<open>
  The kinds of events, and the stage of a commit at which each occurs: the hook before,
  the required-field validation, the I/O validators, the end of the I/O validation, the
  storage write, the hook after.
\<close>

fun is_io_validator :: "event \<Rightarrow> bool" where
  "is_io_validator (IoValidator n b) = True"
| "is_io_validator ev = False"

fun is_storage_write :: "event \<Rightarrow> bool" where
  "is_storage_write (InsertOne p) = True"
| "is_storage_write (UpdateOne q p) = True"
| "is_storage_write ev = False"

fun stage :: "event \<Rightarrow> nat" where
  "stage PreInsert = 0"
| "stage PreUpdate = 0"
| "stage (RequiredValidated b) = 1"
| "stage (IoValidator n b) = 2"
| "stage (IoValidated b) = 3"
| "stage (InsertOne p) = 4"
| "stage (UpdateOne q p) = 4"
| "stage PostInsert = 5"
| "stage PostUpdate = 5"

text \<open>
  The invariant of a data proxy after any load: every field of the schema has an entry
  in \<open>_data\<close>.
\<close>

definition complete :: "(string \<times> field) list \<Rightarrow> data_proxy \<Rightarrow> bool" where
  "complete flds dp = (\<forall>(n, f) \<in> set flds. storage_key n f \<in> fst ` set (data dp))"

section \<open>Example schemas, documents and collaborators\<close>

definition empty_proxy :: data_proxy where
  "empty_proxy = \<lparr>not_loaded_fields = {}, data = [], modified_data = {}\<rparr>"

text \<open>A schema with the fields \<open>a\<close> and \<open>b\<close>, \<open>b\<close> with the default \<open>0\<close>.\<close>

definition flds_ab :: "(string \<times> field) list" where
  "flds_ab = [(''a'', IntField None False False False False Missing),
              (''b'', IntField None False False False False (VInt 0))]"

text \<open>A document class with these fields and the primary key.\<close>

definition cls_ab :: implementation where
  "cls_ab =
     \<lparr>cls_name = ''Doc'',
      schema_fields = (''id'', ObjectIdField (Some ''_id'') False False False True Missing) # flds_ab,
      opts = \<lparr>collection_name = Some ''doc'', abstract = False, allow_inheritance = False,
              indexes = [], is_child = False, strict = True, offspring = []\<rparr>\<rparr>"

text \<open>Hooks that do nothing, and a collection that accepts every write.\<close>

definition env0 :: env where
  "env0 =
     \<lparr>pre_insert = (\<lambda>d. (d, Inr ())),
      pre_update = (\<lambda>d. (d, Inr None)),
      post_insert = (\<lambda>d v. (d, Inr ())),
      post_update = (\<lambda>d n. (d, Inr ())),
      insert_one = (\<lambda>p. Inr (VInt 1)),
      update_one = (\<lambda>q p. Inr 1)\<rparr>"

text \<open>A document just instantiated with \<open>a = 1\<close>, and the same document once stored.\<close>

definition fresh_doc :: document where
  "fresh_doc =
     \<lparr>is_created = False,
      d_data = \<lparr>not_loaded_fields = {},
                data = [(''a'', VInt 1), (''_id'', Missing), (''b'', VInt 0)],
                modified_data = {''a''}\<rparr>\<rparr>"

definition stored_doc :: document where
  "stored_doc =
     \<lparr>is_created = True,
      d_data = \<lparr>not_loaded_fields = {},
                data = [(''a'', VInt 1), (''_id'', VInt 1), (''b'', VInt 0)],
                modified_data = {}\<rparr>\<rparr>"

text \<open>
  The traces that the two writing branches of \<open>commit\<close> can leave: the hook before, the
  required-field validation, the I/O validators, the end of the I/O validation, the
  write and the hook after, cut short where an exception is raised. \<open>ok\<close> tells whether
  the branch returned.
\<close>

definition staged ::
  "event \<Rightarrow> event \<Rightarrow> (event \<Rightarrow> bool) \<Rightarrow> event list \<Rightarrow> bool \<Rightarrow> bool" where
  "staged pre post wr tr ok =
     (tr = [pre] \<and> \<not> ok
      \<or> tr = [pre, RequiredValidated False] \<and> \<not> ok
      \<or> (\<exists>ios. list_all is_io_validator ios \<and>
            (tr = [pre, RequiredValidated True] @ ios @ [IoValidated False] \<and> \<not> ok
             \<or> tr = [pre, RequiredValidated True] @ ios @ [IoValidated True] \<and> \<not> ok
             \<or> (\<exists>w. wr w \<and>
                   (tr = [pre, RequiredValidated True] @ ios @ [IoValidated True, w] \<and> \<not> ok
                    \<or> tr = [pre, RequiredValidated True] @ ios
                            @ [IoValidated True, w, post])))))"

text \<open>
  A document class with a field \<open>n\<close> that carries an I/O validator (the value must be
  positive), and two documents just instantiated, one with a valid \<open>n\<close>, one without.
\<close>

definition positive :: "val \<Rightarrow> validation" where
  "positive v = (case v of VInt i \<Rightarrow> if 0 < i then Passed else Invalid [''Must be positive.'']
                 | _ \<Rightarrow> Passed)"

definition cls_checked :: implementation where
  "cls_checked =
     \<lparr>cls_name = ''Checked'',
      schema_fields =
        [(''id'', ObjectIdField (Some ''_id'') False False False True Missing),
         (''n'', Field None True False False False Missing default_error_messages integer_hook
                   (\<lambda>v. v) (\<lambda>v. v) [positive] Plain)],
      opts = \<lparr>collection_name = Some ''checked'', abstract = False, allow_inheritance = False,
              indexes = [], is_child = False, strict = True, offspring = []\<rparr>\<rparr>"

definition checked_doc :: "int \<Rightarrow> document" where
  "checked_doc i =
     \<lparr>is_created = False,
      d_data = \<lparr>not_loaded_fields = {}, data = [(''n'', VInt i), (''_id'', Missing)],
                modified_data = {''n''}\<rparr>\<rparr>"

text \<open>
  A document class with four validated fields: \<open>owner\<close>, which may be \<open>None\<close> and whose
  validator looks the referenced document up in the manner of \<open>_reference_io_validate\<close>
  (\<open>value.fetch(no_data=True)\<close>: an \<open>AttributeError\<close> on \<open>None\<close>, a \<open>ValidationError\<close> when no
  document has the identifier; the only owner stored has the identifier \<open>1\<close>), \<open>n\<close>,
  which must be positive, \<open>sizes\<close>, a list whose elements must be positive, and \<open>home\<close>,
  an embedded document whose \<open>floor\<close> must be positive.
\<close>

definition fetch_reference :: "val \<Rightarrow> validation" where
  "fetch_reference v =
     (case v of
        VNone \<Rightarrow> Raised (AttributeError ''fetch'')
      | VInt i \<Rightarrow> if i = 1 then Passed
                  else Invalid [''Reference not found for document Owner.'']
      | _ \<Rightarrow> Passed)"

definition cls_owned :: implementation where
  "cls_owned =
     \<lparr>cls_name = ''Owned'',
      schema_fields =
        [(''id'', ObjectIdField (Some ''_id'') False False False True Missing),
         (''owner'', Field None False True False False Missing default_error_messages any_hook
                       (\<lambda>v. v) (\<lambda>v. v) [fetch_reference] Plain),
         (''n'', Field None True False False False Missing default_error_messages integer_hook
                   (\<lambda>v. v) (\<lambda>v. v) [positive] Plain),
         (''sizes'', Field None False False False False Missing default_error_messages any_hook
                       (\<lambda>v. v) (\<lambda>v. v) []
                       (ListField (Field None False False False False Missing
                          default_error_messages integer_hook (\<lambda>v. v) (\<lambda>v. v) [positive]
                          Plain))),
         (''home'', Field None False False False False Missing default_error_messages any_hook
                      (\<lambda>v. v) (\<lambda>v. v) []
                      (EmbeddedField
                         [(''floor'', Field None False False False False Missing
                             default_error_messages integer_hook (\<lambda>v. v) (\<lambda>v. v)
                             [positive] Plain)]))],
      opts = \<lparr>collection_name = Some ''owned'', abstract = False, allow_inheritance = False,
              indexes = [], is_child = False, strict = True, offspring = []\<rparr>\<rparr>"

definition owned_doc :: "val \<Rightarrow> int \<Rightarrow> int list \<Rightarrow> int \<Rightarrow> document" where
  "owned_doc owner i sizes floor =
     \<lparr>is_created = False,
      d_data = \<lparr>not_loaded_fields = {},
                data = [(''owner'', owner), (''n'', VInt i),
                        (''sizes'', VList False (map VInt sizes)),
                        (''home'', VEmb [] [(''floor'', VInt floor)]), (''_id'', Missing)],
                modified_data = {''owner'', ''n'', ''sizes'', ''home''}\<rparr>\<rparr>"












text \<open>
  Templates: \<open>User\<close> has a unique, required field \<open>n\<close> stored as \<open>_n\<close>; \<open>Person\<close> allows
  inheritance; \<open>Student\<close>, a child of \<open>Person\<close>, declares a unique, required field \<open>roll\<close>
  and a custom index on \<open>name\<close>. \<open>person_cls\<close> and \<open>student_cls\<close> are the implementations
  that the builder makes of the last two.
\<close>

definition no_meta :: "string \<Rightarrow> (string \<times> field) list \<Rightarrow> template" where
  "no_meta name flds =
     \<lparr>t_name = name, t_fields = flds, meta_collection_name = None, meta_abstract = False,
      meta_allow_inheritance = None, meta_strict = True, meta_indexes = []\<rparr>"

definition user_fields :: "(string \<times> field) list" where
  "user_fields =
     [(''n'', IntField (Some ''_n'') True False True False Missing),
      (''id'', ObjectIdField (Some ''_id'') False False False True Missing)]"

definition person_template :: template where
  "person_template =
     (no_meta ''Person'' [(''name'', StrField None False False False False Missing)])
       \<lparr>meta_collection_name := Some ''person'', meta_allow_inheritance := Some True\<rparr>"

definition student_template :: template where
  "student_template =
     (no_meta ''Student'' [(''roll'', IntField None True False True False Missing)])
       \<lparr>meta_indexes := [IxStr ''-name'']\<rparr>"

definition person_cls :: implementation where
  "person_cls =
     \<lparr>cls_name = ''Person'',
      schema_fields =
        [(''name'', StrField None False False False False Missing),
         (''id'', ObjectIdField (Some ''_id'') False False False True Missing)],
      opts = \<lparr>collection_name = Some ''person'', abstract = False, allow_inheritance = True,
              indexes = [], is_child = False, strict = True, offspring = []\<rparr>\<rparr>"

definition student_cls :: implementation where
  "student_cls =
     \<lparr>cls_name = ''Student'',
      schema_fields =
        [(''name'', StrField None False False False False Missing),
         (''id'', ObjectIdField (Some ''_id'') False False False True Missing),
         (''roll'', IntField None True False True False Missing),
         (''cls'', StrField (Some ''_cls'') False False False True (VStr ''Student''))],
      opts = \<lparr>collection_name = Some ''person'', abstract = False, allow_inheritance = False,
              indexes =
                [\<lparr>index_key = [(KStr ''name'', KDir DESCENDING), (KStr ''_cls'', KDir ASCENDING)],
                  index_name = ''name_-1__cls_1'', index_args = []\<rparr>,
                 \<lparr>index_key = [(KStr ''_cls'', KDir ASCENDING)],
                  index_name = ''_cls_1'', index_args = []\<rparr>,
                 \<lparr>index_key = [(KStr ''roll'', KDir ASCENDING), (KStr ''_cls'', KDir ASCENDING)],
                  index_name = ''roll_1__cls_1'', index_args = [(''unique'', VBool True)]\<rparr>],
              is_child = True, strict = True, offspring = []\<rparr>\<rparr>"

text \<open>The message of the duplicate-key error that the store raises on the index of \<open>roll\<close>.\<close>

definition roll_errmsg :: string where
  "roll_errmsg =
     ''E11000 duplicate key error collection: test.person index: roll_1__cls_1 dup key: ''
     @ ''{ roll: 7, _cls: '' @ [CHR 0x22] @ ''Student'' @ [CHR 0x22] @ '' }''"

text \<open>
  A \<open>Student\<close> just instantiated, and a collection whose \<open>insert_one\<close> raises that
  duplicate-key error.
\<close>

definition student_doc :: document where
  "student_doc =
     \<lparr>is_created = False,
      d_data = \<lparr>not_loaded_fields = {},
                data = [(''roll'', VInt 7), (''name'', Missing), (''_id'', Missing),
                        (''_cls'', VStr ''Student'')],
                modified_data = {''roll''}\<rparr>\<rparr>"

definition env_duplicate :: env where
  "env_duplicate = env0\<lparr>insert_one := (\<lambda>p. Inl (DuplicateKeyError roll_errmsg))\<rparr>"

section \<open>Properties of the data proxy\<close>

lemma ebind_Inr_iff: "ebind m f = Inr y \<longleftrightarrow> (\<exists>x. m = Inr x \<and> f x = Inr y)"
  by (cases m) auto

lemma fold_update_keys:
  "fst ` set (fold (\<lambda>(k, v) d. AList.update k v d) kvs d0) = fst ` set kvs \<union> fst ` set d0"
proof (induction kvs arbitrary: d0)
  case Nil
  then show ?case by simp
next
  case (Cons kv kvs)
  then show ?case
    by (cases kv) (simp add: AList.dom_update Un_assoc Un_left_commute)
qed

lemma dict_of_keys: "fst ` set (dict_of kvs) = fst ` set kvs"
  by (simp add: dict_of_def fold_update_keys)

lemma load_fields_keys:
  "k \<in> fst ` set (snd (load_fields flds input)) \<Longrightarrow>
   \<exists>n f. (n, f) \<in> set flds \<and> n \<in> fst ` set input \<and> k = storage_key n f"
proof (induction flds)
  case Nil
  then show ?case by simp
next
  case (Cons nf flds)
  obtain n f where nf: "nf = (n, f)" by (cases nf)
  show ?case
    using Cons nf
    by (auto simp: Let_def split: prod.splits if_splits option.splits sum.splits error.splits
             dest!: map_of_SomeD) (force+)
qed

lemma values_clear_modified_keys:
  "values_clear_modified kvs = Inr kvs' \<Longrightarrow> map fst kvs' = map fst kvs"
  by (induction kvs arbitrary: kvs') (auto split: if_splits sum.splits)

lemma fold_mark_as_modified:
  "fold (\<lambda>key d. mark_as_modified d key) ks dp =
     dp\<lparr>modified_data := set ks \<union> modified_data dp\<rparr>"
  by (induction ks arbitrary: dp) (auto simp: mark_as_modified_def)

lemma load_Inr:
  assumes "load flds dp input partial = Inr dp'"
  shows "\<exists>loaded d1. schema_load flds input = Inr loaded \<and>
           values_clear_modified loaded = Inr d1 \<and>
           not_loaded_fields dp' =
             (if partial then set (map fst flds) - set (map fst input) else {}) \<and>
           data dp' = add_missing_fields_loop flds d1 \<and>
           modified_data dp' = set (map fst loaded)"
proof -
  from assms obtain loaded dp1 where
    sl: "schema_load flds input = Inr loaded" and
    cm: "clear_modified (dp\<lparr>data := loaded\<rparr>) = Inr dp1" and
    eq: "dp' = add_missing_fields flds
           (if partial
            then collect_partial_fields flds
                   (fold (\<lambda>key d. mark_as_modified d key) (map fst loaded) dp1)
                   (map fst input) False
            else (fold (\<lambda>key d. mark_as_modified d key) (map fst loaded) dp1)
                   \<lparr>not_loaded_fields := {}\<rparr>)"
    by (auto simp: load_def ebind_Inr_iff Let_def)
  from cm obtain d1 where
    cl: "values_clear_modified loaded = Inr d1" and
    dp1: "dp1 = dp\<lparr>data := loaded, modified_data := {}, data := d1\<rparr>"
    by (auto simp: clear_modified_def ebind_Inr_iff)
  show ?thesis
    using sl cl
    by (simp add: eq dp1 fold_mark_as_modified collect_partial_fields_def add_missing_fields_def)
qed

lemma schema_load_keys:
  assumes "schema_load flds input = Inr loaded" and "k \<in> fst ` set loaded"
  shows "\<exists>n f. (n, f) \<in> set flds \<and> n \<in> fst ` set input \<and> k = storage_key n f"
proof -
  from assms(1) have "loaded = dict_of (snd (load_fields flds input))"
    by (auto simp: schema_load_def Let_def split: prod.splits if_splits)
  with assms(2) show ?thesis
    using load_fields_keys[of k flds input] by (simp add: dict_of_keys)
qed

lemma add_missing_fields_loop_present:
  "k \<in> fst ` set d \<Longrightarrow> map_of (add_missing_fields_loop fs d) k = map_of d k"
proof (induction fs d rule: add_missing_fields_loop.induct)
  case (1 d)
  then show ?case by simp
next
  case (2 name f fs d)
  show ?case
  proof (cases "storage_key name f \<in> fst ` set d")
    case True
    with 2 show ?thesis by (simp add: Let_def)
  next
    case False
    with 2(3) have ne: "k \<noteq> storage_key name f" by blast
    from 2(3) have "k \<in> fst ` set (AList.update (storage_key name f) (missing f) d)"
      by (simp add: AList.dom_update)
    with 2(1) False have
      "map_of (add_missing_fields_loop fs (AList.update (storage_key name f) (missing f) d)) k
         = map_of (AList.update (storage_key name f) (missing f) d) k"
      by simp
    with False ne show ?thesis by (simp add: Let_def AList.update_conv')
  qed
qed

lemma add_missing_fields_loop_absent:
  assumes "map_of fs b = Some fb"
    and "\<forall>(n, f) \<in> set fs. n \<noteq> b \<longrightarrow> storage_key n f \<noteq> storage_key b fb"
    and "storage_key b fb \<notin> fst ` set d"
  shows "map_of (add_missing_fields_loop fs d) (storage_key b fb) = Some (missing fb)"
  using assms
proof (induction fs d rule: add_missing_fields_loop.induct)
  case (1 d)
  then show ?case by simp
next
  case (2 name f fs d)
  show ?case
  proof (cases "name = b")
    case True
    with 2 have "f = fb" by simp
    with True 2(5) show ?thesis
      by (simp add: Let_def add_missing_fields_loop_present AList.dom_update AList.update_conv')
  next
    case False
    with 2 show ?thesis
      by (auto simp: Let_def AList.dom_update)
  qed
qed

lemma add_missing_fields_loop_keys:
  "fst ` set d \<subseteq> fst ` set (add_missing_fields_loop fs d) \<and>
   (\<forall>(n, f) \<in> set fs. storage_key n f \<in> fst ` set (add_missing_fields_loop fs d))"
proof (induction fs d rule: add_missing_fields_loop.induct)
  case (1 d)
  then show ?case by simp
next
  case (2 name f fs d)
  show ?case
  proof (cases "storage_key name f \<in> fst ` set d")
    case True
    with 2 show ?thesis by (auto simp: Let_def)
  next
    case False
    with 2(1) have ih:
      "fst ` set (AList.update (storage_key name f) (missing f) d)
         \<subseteq> fst ` set (add_missing_fields_loop fs (AList.update (storage_key name f) (missing f) d))"
      "\<forall>(n, f') \<in> set fs. storage_key n f' \<in>
         fst ` set (add_missing_fields_loop fs (AList.update (storage_key name f) (missing f) d))"
      by simp_all
    from ih(1) have
      "insert (storage_key name f) (fst ` set d)
         \<subseteq> fst ` set (add_missing_fields_loop fs (AList.update (storage_key name f) (missing f) d))"
      by (simp add: AList.dom_update)
    with ih(2) False show ?thesis by (auto simp: Let_def)
  qed
qed

lemma load_complete: "load flds dp input partial = Inr dp' \<Longrightarrow> complete flds dp'"
  using load_Inr[of flds dp input partial dp'] add_missing_fields_loop_keys
  by (fastforce simp: complete_def)

lemma val_clear_modified_is_data_object:
  "val_clear_modified v = Inr v' \<Longrightarrow> is_data_object v'"
  by (cases v) (auto split: list.splits if_splits sum.splits)

lemma clear_modified_not_modified:
  "(\<forall>v'. val_clear_modified v = Inr v' \<longrightarrow> val_is_modified v' = Inr False)"
  "(\<forall>ys. all_clear_modified xs = Inr ys \<longrightarrow> any_is_modified ys = Inr False)"
  "(\<forall>kvs'. values_clear_modified kvs = Inr kvs' \<longrightarrow>
      values_any_modified kvs' = Inr False \<and>
      (\<forall>kv \<in> set kvs'. is_data_object (snd kv) \<longrightarrow> val_is_modified (snd kv) = Inr False))"
proof (induction v and xs and kvs
    rule: val_clear_modified_all_clear_modified_values_clear_modified.induct)
  case (1 m xs)
  then show ?case
    by (auto split: list.splits if_splits sum.splits)
next
  case (12 kv kvs)
  then show ?case
    by (auto split: if_splits sum.splits)
qed (auto split: sum.splits)

lemma get_modified_fields_loop_clean:
  assumes "modified_data dp = {}"
    and "\<forall>kv \<in> set (data dp). is_data_object (snd kv) \<longrightarrow> val_is_modified (snd kv) = Inr False"
    and "\<forall>(n, f) \<in> set fs. storage_key n f \<in> fst ` set (data dp)"
  shows "get_modified_fields_loop fs dp = Inr []"
  using assms(3)
proof (induction fs)
  case Nil
  then show ?case by simp
next
  case (Cons nf fs)
  obtain n f where nf: "nf = (n, f)" by (cases nf)
  from Cons.prems nf have "storage_key n f \<in> fst ` set (data dp)" by simp
  then obtain v where v: "map_of (data dp) (storage_key n f) = Some v"
    by (cases "map_of (data dp) (storage_key n f)") (simp_all add: map_of_eq_None_iff)
  then have "(storage_key n f, v) \<in> set (data dp)" by (rule map_of_SomeD)
  with assms(2) have "is_data_object v \<longrightarrow> val_is_modified v = Inr False" by force
  with Cons nf v assms(1) show ?case
    by (auto simp: getitem_def Let_def)
qed

lemma to_mongo_update_after_clear_modified:
  assumes "complete flds dp" and "clear_modified dp = Inr dp'"
  shows "to_mongo_update flds dp' = Inr None"
proof -
  from assms(2) obtain d where
    d: "values_clear_modified (data dp) = Inr d" and
    dp': "dp' = dp\<lparr>modified_data := {}, data := d\<rparr>"
    by (auto simp: clear_modified_def ebind_Inr_iff)
  have keys: "map fst d = map fst (data dp)"
    using d by (rule values_clear_modified_keys)
  then have "fst ` set d = fst ` set (data dp)" by (metis set_map)
  with assms(1) have c: "\<forall>(n, f) \<in> set flds. storage_key n f \<in> fst ` set (data dp')"
    by (simp add: complete_def dp')
  from clear_modified_not_modified(3) d have
    "\<forall>kv \<in> set (data dp'). is_data_object (snd kv) \<longrightarrow> val_is_modified (snd kv) = Inr False"
    by (simp add: dp')
  with c have "get_modified_fields_loop flds dp' = Inr []"
    by (intro get_modified_fields_loop_clean) (simp_all add: dp')
  then show ?thesis
    by (simp add: to_mongo_update_def get_modified_fields_def)
qed

lemmas example_defs =
  load_def schema_load_def schema_validator_check_unknown_fields_def
  deserialize_def validate_missing_def storage_key_def dict_of_def clear_modified_def
  mark_as_modified_def collect_partial_fields_def add_missing_fields_def
  get_def get_field_def set_dp_def delete_dp_def getitem_def
  to_mongo_def to_mongo_update_def to_mongo_insert_def get_modified_fields_def
  serialize_to_mongo_def deserialize_from_mongo_def document_to_mongo_def
  fields_from_mongo_key_def IntField_def StrField_def ObjectIdField_def
  integer_hook_def string_hook_def any_hook_def
  default_error_messages_def flds_ab_def cls_ab_def empty_proxy_def complete_def
  stored_doc_def fresh_doc_def Let_def

lemma load_flds_ab_partial:
  "load flds_ab empty_proxy [(''a'', VInt 1)] True =
     Inr \<lparr>not_loaded_fields = {''b''}, data = [(''a'', VInt 1), (''b'', VInt 0)],
          modified_data = {''a''}\<rparr>"
  by (simp add: example_defs)

lemma load_flds_ab_full:
  "load flds_ab empty_proxy [(''a'', VInt 1)] False =
     Inr \<lparr>not_loaded_fields = {}, data = [(''a'', VInt 1), (''b'', VInt 0)],
          modified_data = {''a''}\<rparr>"
  by (simp add: example_defs)

text \<open>
  C1, as stated, fails: \<open>to_mongo(update=False)\<close> does not touch the modified markers. A
  stored document whose field \<open>b\<close> was set to \<open>5\<close> gives the full payload and, right
  after it, the update payload \<open>{'$set': {'b': 5}}\<close>, not \<open>None\<close>.
\<close>

theorem update_after_insert_payload_counterexample:
  "is_created stored_doc \<and>
   set_dp (schema_fields cls_ab) (d_data stored_doc) ''b'' (VInt 5) KeyError =
     Inr \<lparr>not_loaded_fields = {},
          data = [(''a'', VInt 1), (''_id'', VInt 1), (''b'', VInt 5)],
          modified_data = {''b''}\<rparr> \<and>
   document_to_mongo cls_ab
     (stored_doc\<lparr>d_data := \<lparr>not_loaded_fields = {},
          data = [(''a'', VInt 1), (''_id'', VInt 1), (''b'', VInt 5)],
          modified_data = {''b''}\<rparr>\<rparr>) False =
     Inr (Inl [(''a'', VInt 1), (''_id'', VInt 1), (''b'', VInt 5)]) \<and>
   document_to_mongo cls_ab
     (stored_doc\<lparr>d_data := \<lparr>not_loaded_fields = {},
          data = [(''a'', VInt 1), (''_id'', VInt 1), (''b'', VInt 5)],
          modified_data = {''b''}\<rparr>\<rparr>) True =
     Inr (Inr (Some (UpdatePayload [(''b'', VInt 5)] [])))"
  by (simp add: example_defs)

text \<open>
  C1, amended: the update payload is empty (\<open>to_mongo(update=True)\<close> returns \<open>None\<close>) once
  the modified markers have been cleared by \<open>clear_modified\<close>, which \<open>commit\<close> calls after
  the write: for every created document whose data proxy holds an entry for each field
  of the schema (as it does after any load), the update payload computed right after
  \<open>clear_modified\<close> is \<open>None\<close>. Computing the full payload clears nothing.
\<close>

theorem update_payload_after_clear_modified:
  assumes "is_created doc"
    and "complete (schema_fields cls) (d_data doc)"
    and "clear_modified (d_data doc) = Inr dp'"
  shows "document_to_mongo cls (doc\<lparr>d_data := dp'\<rparr>) True = Inr (Inr None)"
  using assms to_mongo_update_after_clear_modified[of "schema_fields cls" "d_data doc" dp']
  by (simp add: document_to_mongo_def to_mongo_def)

theorem update_payload_after_clear_modified_witness:
  "is_created stored_doc \<and> complete (schema_fields cls_ab) (d_data stored_doc) \<and>
   clear_modified
     \<lparr>not_loaded_fields = {}, data = [(''a'', VInt 1), (''_id'', VInt 1), (''b'', VInt 5)],
      modified_data = {''b''}\<rparr> =
     Inr \<lparr>not_loaded_fields = {}, data = [(''a'', VInt 1), (''_id'', VInt 1), (''b'', VInt 5)],
          modified_data = {}\<rparr> \<and>
   document_to_mongo cls_ab
     (stored_doc\<lparr>d_data := \<lparr>not_loaded_fields = {},
          data = [(''a'', VInt 1), (''_id'', VInt 1), (''b'', VInt 5)],
          modified_data = {}\<rparr>\<rparr>) True = Inr (Inr None)"
proof -
  let ?doc = "stored_doc\<lparr>d_data := \<lparr>not_loaded_fields = {},
          data = [(''a'', VInt 1), (''_id'', VInt 1), (''b'', VInt 5)],
          modified_data = {''b''}\<rparr>\<rparr>"
  let ?dp' = "\<lparr>not_loaded_fields = {},
          data = [(''a'', VInt 1), (''_id'', VInt 1), (''b'', VInt 5)],
          modified_data = {}\<rparr>"
  have h1: "is_created ?doc" by (simp add: stored_doc_def)
  have h2: "complete (schema_fields cls_ab) (d_data ?doc)" by (simp add: example_defs)
  have h3: "clear_modified (d_data ?doc) = Inr ?dp'" by (simp add: example_defs)
  from update_payload_after_clear_modified[OF h1 h2 h3] h3
  show ?thesis by (simp add: example_defs)
qed

text \<open>
  C2: for a schema with a field \<open>b\<close> and an input without \<open>b\<close>, a partial load leaves \<open>b\<close>
  not loaded, and \<open>get\<close>, \<open>set\<close> and \<open>delete\<close> of \<open>b\<close> by its logical name raise
  \<open>FieldNotLoadedError\<close>; \<open>set\<close> and \<open>delete\<close> of any field leave the set of not loaded
  fields as it is, so \<open>b\<close> stays inaccessible until a load brings it back. A load of the
  same input that is not partial leaves no field unloaded, \<open>get\<close> of \<open>b\<close> returns the
  resolved default of \<open>b\<close> (the storage keys of the schema being distinct), \<open>set\<close> does not
  raise \<open>FieldNotLoadedError\<close> and \<open>delete\<close> succeeds.
\<close>

theorem partial_load_field_access:
  assumes "map_of flds b = Some fb" and "b \<notin> fst ` set input"
  shows "(load flds dp input True = Inr dp' \<longrightarrow>
            b \<in> not_loaded_fields dp' \<and>
            get flds dp' b to_raise = Inl (FieldNotLoadedError b) \<and>
            set_dp flds dp' b x to_raise = Inl (FieldNotLoadedError b) \<and>
            delete_dp flds dp' b to_raise = Inl (FieldNotLoadedError b) \<and>
            (\<forall>c y dp''. set_dp flds dp' c y to_raise = Inr dp'' \<or>
                          delete_dp flds dp' c to_raise = Inr dp'' \<longrightarrow>
                          not_loaded_fields dp'' = not_loaded_fields dp')) \<and>
         (load flds dp input False = Inr dp' \<longrightarrow>
            b \<notin> not_loaded_fields dp' \<and>
            ((\<forall>(n, f) \<in> set flds. n \<noteq> b \<longrightarrow> storage_key n f \<noteq> storage_key b fb) \<longrightarrow>
               get flds dp' b to_raise = Inr (missing fb)) \<and>
            set_dp flds dp' b x to_raise \<noteq> Inl (FieldNotLoadedError b) \<and>
            (\<exists>dp''. delete_dp flds dp' b to_raise = Inr dp''))"
proof (intro conjI impI allI)
  assume l: "load flds dp input True = Inr dp'"
  from assms(1) have "b \<in> set (map fst flds)"
    by (auto dest!: map_of_SomeD intro: rev_image_eqI)
  with load_Inr[OF l] assms(2) show nl: "b \<in> not_loaded_fields dp'" by auto
  from nl assms(1) show "get flds dp' b to_raise = Inl (FieldNotLoadedError b)"
    by (simp add: get_def get_field_def)
  from nl assms(1) show "set_dp flds dp' b x to_raise = Inl (FieldNotLoadedError b)"
    by (simp add: set_dp_def get_field_def)
  from nl assms(1) show "delete_dp flds dp' b to_raise = Inl (FieldNotLoadedError b)"
    by (simp add: delete_dp_def get_field_def)
  fix c y dp''
  assume "set_dp flds dp' c y to_raise = Inr dp'' \<or> delete_dp flds dp' c to_raise = Inr dp''"
  then show "not_loaded_fields dp'' = not_loaded_fields dp'"
    by (auto simp: set_dp_def delete_dp_def ebind_Inr_iff mark_as_modified_def
             split: if_splits sum.splits)
next
  assume l: "load flds dp input False = Inr dp'"
  from load_Inr[OF l] obtain loaded d1 where
    sl: "schema_load flds input = Inr loaded" and
    cl: "values_clear_modified loaded = Inr d1" and
    nl: "not_loaded_fields dp' = {}" and
    d: "data dp' = add_missing_fields_loop flds d1" by auto
  from nl show "b \<notin> not_loaded_fields dp'" by simp
  from nl assms(1) show "set_dp flds dp' b x to_raise \<noteq> Inl (FieldNotLoadedError b)"
    by (auto simp: set_dp_def get_field_def split: sum.splits)
  from nl assms(1) show "\<exists>dp''. delete_dp flds dp' b to_raise = Inr dp''"
    by (simp add: delete_dp_def get_field_def)
  assume distinct_keys:
    "\<forall>(n, f) \<in> set flds. n \<noteq> b \<longrightarrow> storage_key n f \<noteq> storage_key b fb"
  have "storage_key b fb \<notin> fst ` set loaded"
  proof
    assume "storage_key b fb \<in> fst ` set loaded"
    from schema_load_keys[OF sl this] obtain n f where
      "(n, f) \<in> set flds" "n \<in> fst ` set input" "storage_key b fb = storage_key n f" by auto
    with assms(2) distinct_keys show False by fastforce
  qed
  with values_clear_modified_keys[OF cl] have "storage_key b fb \<notin> fst ` set d1"
    by (metis set_map)
  from add_missing_fields_loop_absent[OF assms(1) distinct_keys this] d
  have "map_of (data dp') (storage_key b fb) = Some (missing fb)" by simp
  with nl assms(1) show "get flds dp' b to_raise = Inr (missing fb)"
    by (simp add: get_def get_field_def getitem_def)
qed

theorem partial_load_field_access_witness:
  "map_of flds_ab ''b'' = Some (IntField None False False False False (VInt 0)) \<and>
   ''b'' \<notin> fst ` set [(''a'', VInt 1)] \<and>
   load flds_ab empty_proxy [(''a'', VInt 1)] True =
     Inr \<lparr>not_loaded_fields = {''b''}, data = [(''a'', VInt 1), (''b'', VInt 0)],
          modified_data = {''a''}\<rparr> \<and>
   get flds_ab \<lparr>not_loaded_fields = {''b''}, data = [(''a'', VInt 1), (''b'', VInt 0)],
          modified_data = {''a''}\<rparr> ''b'' KeyError = Inl (FieldNotLoadedError ''b'') \<and>
   set_dp flds_ab \<lparr>not_loaded_fields = {''b''}, data = [(''a'', VInt 1), (''b'', VInt 0)],
          modified_data = {''a''}\<rparr> ''b'' (VInt 2) KeyError = Inl (FieldNotLoadedError ''b'') \<and>
   load flds_ab empty_proxy [(''a'', VInt 1)] False =
     Inr \<lparr>not_loaded_fields = {}, data = [(''a'', VInt 1), (''b'', VInt 0)],
          modified_data = {''a''}\<rparr> \<and>
   get flds_ab \<lparr>not_loaded_fields = {}, data = [(''a'', VInt 1), (''b'', VInt 0)],
          modified_data = {''a''}\<rparr> ''b'' KeyError = Inr (VInt 0)"
proof -
  have h1: "map_of flds_ab ''b'' = Some (IntField None False False False False (VInt 0))"
    by (simp add: flds_ab_def)
  have h2: "''b'' \<notin> fst ` set [(''a'', VInt 1)]" by simp
  have h3: "\<forall>(n, f) \<in> set flds_ab. n \<noteq> ''b'' \<longrightarrow>
              storage_key n f \<noteq> storage_key ''b'' (IntField None False False False False (VInt 0))"
    by (simp add: flds_ab_def storage_key_def IntField_def)
  have m: "missing (IntField None False False False False (VInt 0)) = VInt 0"
    by (simp add: IntField_def)
  from partial_load_field_access[OF h1 h2, of empty_proxy
      "\<lparr>not_loaded_fields = {''b''}, data = [(''a'', VInt 1), (''b'', VInt 0)],
        modified_data = {''a''}\<rparr>" KeyError "VInt 2"]
    partial_load_field_access[OF h1 h2, of empty_proxy
      "\<lparr>not_loaded_fields = {}, data = [(''a'', VInt 1), (''b'', VInt 0)],
        modified_data = {''a''}\<rparr>" KeyError "VInt 2"]
    load_flds_ab_partial load_flds_ab_full h1 h2 h3 m
  show ?thesis by simp
qed

text \<open>
  C7, as stated, fails for \<open>set\<close>: on a field that a partial load left out, \<open>set\<close> raises
  \<open>FieldNotLoadedError\<close> before it looks at the value, also for \<open>None\<close> on a field with
  \<open>allow_none=False\<close>.
\<close>

theorem set_none_not_loaded_counterexample:
  "map_of flds_ab ''b'' = Some (IntField None False False False False (VInt 0)) \<and>
   \<not> allow_none (IntField None False False False False (VInt 0)) \<and>
   load flds_ab empty_proxy [(''a'', VInt 1)] True =
     Inr \<lparr>not_loaded_fields = {''b''}, data = [(''a'', VInt 1), (''b'', VInt 0)],
          modified_data = {''a''}\<rparr> \<and>
   set_dp flds_ab \<lparr>not_loaded_fields = {''b''}, data = [(''a'', VInt 1), (''b'', VInt 0)],
          modified_data = {''a''}\<rparr> ''b'' VNone KeyError = Inl (FieldNotLoadedError ''b'') \<and>
   set_dp flds_ab \<lparr>not_loaded_fields = {''b''}, data = [(''a'', VInt 1), (''b'', VInt 0)],
          modified_data = {''a''}\<rparr> ''b'' VNone KeyError
     \<noteq> Inl (ValidationError (Msgs [''Field may not be null.'']))"
  by (simp add: example_defs)

text \<open>
  C7, amended: for every field with \<open>allow_none=False\<close>, deserializing \<open>None\<close> fails with
  the field's null-not-allowed error, and so does setting \<open>None\<close> on the field by its
  name when the field is declared and loaded. For every field with \<open>allow_none=True\<close>,
  \<open>None\<close> passes unchanged through \<open>serialize_to_mongo\<close>, \<open>deserialize_from_mongo\<close> and
  \<open>deserialize\<close>, and \<open>set\<close> stores it on a declared and loaded field.
\<close>

theorem none_handling:
  "(\<not> allow_none f \<longrightarrow>
      deserialize f VNone = Inl (ValidationError (Msgs [error_messages f ''null''])) \<and>
      (map_of flds name = Some f \<and> name \<notin> not_loaded_fields dp \<longrightarrow>
         set_dp flds dp name VNone to_raise
           = Inl (ValidationError (Msgs [error_messages f ''null''])))) \<and>
   (allow_none f \<longrightarrow>
      serialize_to_mongo f VNone = VNone \<and> deserialize_from_mongo f VNone = VNone \<and>
      deserialize f VNone = Inr VNone \<and>
      (map_of flds name = Some f \<and> name \<notin> not_loaded_fields dp \<longrightarrow>
         set_dp flds dp name VNone to_raise
           = Inr (mark_as_modified
                    (dp\<lparr>data := AList.update (storage_key name f) VNone (data dp)\<rparr>)
                    (storage_key name f))))"
  by (simp add: deserialize_def validate_missing_def serialize_to_mongo_def
        deserialize_from_mongo_def set_dp_def get_field_def)

theorem none_handling_witness:
  "\<not> allow_none (IntField None False False False False (VInt 0)) \<and>
   map_of flds_ab ''b'' = Some (IntField None False False False False (VInt 0)) \<and>
   ''b'' \<notin> not_loaded_fields empty_proxy \<and>
   deserialize (IntField None False False False False (VInt 0)) VNone
     = Inl (ValidationError (Msgs [''Field may not be null.''])) \<and>
   set_dp flds_ab empty_proxy ''b'' VNone KeyError
     = Inl (ValidationError (Msgs [''Field may not be null.''])) \<and>
   allow_none (IntField None False True False False (VInt 0)) \<and>
   serialize_to_mongo (IntField None False True False False (VInt 0)) VNone = VNone \<and>
   deserialize_from_mongo (IntField None False True False False (VInt 0)) VNone = VNone"
  using none_handling[of "IntField None False False False False (VInt 0)" flds_ab "''b''"
          empty_proxy KeyError]
        none_handling[of "IntField None False True False False (VInt 0)" flds_ab "''b''"
          empty_proxy KeyError]
  by (simp add: flds_ab_def empty_proxy_def IntField_def default_error_messages_def)

section \<open>Properties of \<open>commit\<close>\<close>

lemma run_validators_io: "list_all is_io_validator (fst (run_validators vs n v))"
  by (induction vs) (auto split: validation.splits prod.splits sum.splits)

lemma run_field_validators_io:
  "list_all is_io_validator (fst (run_field_validators vs n v))"
  using run_validators_io[of vs n v]
  by (auto simp: run_field_validators_def split: prod.splits sum.splits)

lemma list_io_validate_loop_io:
  "list_all is_io_validator (fst (list_io_validate_loop vs n xs i))"
proof (induction xs arbitrary: i)
  case Nil
  then show ?case by simp
next
  case (Cons x xs)
  from run_validators_io[of vs n x] Cons[of "Suc i"] show ?case
    by (auto split: prod.splits sum.splits)
qed

lemma io_trace_only_validators:
  "list_all is_io_validator (fst (field_io_validate f n v))"
  "list_all is_io_validator (fst (io_errors flds d p))"
proof (induction f n v and flds d p rule: field_io_validate_io_errors.induct)
  case (1 a r an u d m em dh sh dmh iov name v)
  then show ?case
    by (simp add: run_field_validators_io)
next
  case (2 a r an u d m em dh sh dmh iov container name v)
  show ?case
  proof (cases v)
    case (VList md xs)
    from list_io_validate_loop_io[of "io_validate container" name xs 0]
      run_field_validators_io[of iov name v]
    show ?thesis
      by (auto simp: VList split: prod.splits sum.splits)
  qed (simp_all add: run_field_validators_io)
next
  case (3 a r an u d m em dh sh dmh iov fs name v)
  show ?case
  proof (cases v)
    case (VEmb md kvs)
    from 3[OF VEmb] run_field_validators_io[of iov name v]
    show ?thesis
      by (auto simp: VEmb split: prod.splits sum.splits)
  qed simp_all
next
  case (4 d partial)
  then show ?case by simp
next
  case (5 nf rest d partial)
  then show ?case
    by (auto simp: split_beta split: sum.splits option.splits)
       (metis prod.collapse)+
qed

lemma document_io_validate_io:
  "list_all is_io_validator (fst (document_io_validate cls doc b))"
  by (auto simp: document_io_validate_def io_validate_data_proxy_def split_beta
        io_trace_only_validators split: sum.splits)





lemma step_io_validate_cases:
  obtains ios where "list_all is_io_validator ios"
    "step_io_validate cls v doc = (ios @ [IoValidated True], doc, Inr ())"
  | ios err where "list_all is_io_validator ios"
    "step_io_validate cls v doc = (ios @ [IoValidated False], doc, Inl err)"
proof (cases "document_io_validate cls doc v")
  case (Pair tr r)
  with document_io_validate_io[of cls doc v] have io: "list_all is_io_validator tr" by simp
  show ?thesis
  proof (cases r)
    case (Inl err)
    with Pair io that(2) show ?thesis by (simp add: step_io_validate_def)
  next
    case (Inr u)
    with Pair io that(1) show ?thesis by (simp add: step_io_validate_def)
  qed
qed

lemma step_required_validate_cases:
  obtains "step_required_validate cls doc = ([RequiredValidated True], doc, Inr ())"
  | err where "step_required_validate cls doc = ([RequiredValidated False], doc, Inl err)"
  by (cases "required_validate (schema_fields cls) (d_data doc)")
     (auto simp: step_required_validate_def)

lemma commit_insert_staged:
  assumes a: "commit_insert e cls io doc = (tr, doc', r)"
  shows "staged PreInsert PostInsert (\<lambda>w. \<exists>p. w = InsertOne p) tr (\<not> isl r) \<and>
         (\<forall>ret. r = Inr ret \<longrightarrow> (\<exists>v. ret = InsertOneResult v))"
proof -
  obtain d1 r1 where pi: "pre_insert e doc = (d1, r1)" by (cases "pre_insert e doc")
  show ?thesis
  proof (cases r1)
    case (Inl err)
    with a pi show ?thesis
      by (auto simp: commit_insert_def obind_def staged_def)
  next
    case (Inr u)
    show ?thesis
    proof (cases rule: step_required_validate_cases[of cls d1])
      case 2
      with a pi Inr show ?thesis
        by (auto simp: commit_insert_def obind_def staged_def)
    next
      case 1
      note rv = 1
      show ?thesis
      proof (cases rule: step_io_validate_cases[of cls io d1])
        case (2 ios err)
        with a pi Inr rv show ?thesis
          by (auto simp: commit_insert_def obind_def staged_def)
      next
        case (1 ios)
        with a pi Inr rv show ?thesis
          by (auto simp: commit_insert_def obind_def staged_def
                split: sum.splits prod.splits)
      qed
    qed
  qed
qed


lemma io_validator_stage: "list_all is_io_validator ios \<Longrightarrow> ev \<in> set ios \<Longrightarrow> stage ev = 2"
  by (cases ev) (auto simp: list_all_iff)

lemma io_validator_not_other:
  "list_all is_io_validator ios \<Longrightarrow> ev \<in> set ios \<Longrightarrow>
     \<not> is_storage_write ev \<and> ev \<noteq> RequiredValidated b \<and> ev \<noteq> IoValidated b \<and>
     ev \<noteq> PreInsert \<and> ev \<noteq> PreUpdate \<and> ev \<noteq> PostInsert \<and> ev \<noteq> PostUpdate"
  by (cases ev) (auto simp: list_all_iff)





lemma staged_pre_post:
  assumes "staged pre post wr tr ok"
  shows "tr \<noteq> [] \<and> hd tr = pre"
  using assms by (auto simp: staged_def)

lemma staged_events:
  assumes "staged pre post wr tr ok" and "ev \<in> set tr"
  shows "ev = pre \<or> ev = post \<or> wr ev \<or> is_io_validator ev \<or>
         (\<exists>b. ev = RequiredValidated b) \<or> (\<exists>b. ev = IoValidated b)"
  using assms by (auto simp: staged_def list_all_iff)

lemma staged_ok_write:
  assumes "staged pre post wr tr True"
  shows "\<exists>w \<in> set tr. wr w"
  using assms by (auto simp: staged_def)


lemma commit_trace:
  assumes "commit e cls io conditions doc = (tr, doc', r)"
  shows "\<exists>d r'. commit_try e cls io conditions doc = (tr, d, r') \<and> (isl r' \<longrightarrow> isl r) \<and>
           (\<forall>ret. r = Inr ret \<longrightarrow> r' = Inr ret)"
  using assms
  by (auto simp: commit_def split: prod.splits sum.splits error.splits)







lemmas commit_defs =
  commit_def commit_try_def commit_insert_def commit_update_def obind_def
  step_required_validate_def step_io_validate_def required_validate_def
  document_io_validate_def io_validate_data_proxy_def run_field_validators_def
  is_modified_def is_modified_dp_def
  pk_def get_by_mongo_name_def set_by_mongo_name_def merge_conditions_def
  merge_additional_filter_def env0_def cls_checked_def checked_doc_def positive_def
  cls_owned_def owned_doc_def fetch_reference_def

lemma commit_checked_doc_valid:
  "commit env0 cls_checked False None (checked_doc 5) =
     ([PreInsert, RequiredValidated True, IoValidator ''n'' True, IoValidated True,
       InsertOne [(''n'', VInt 5)], PostInsert],
      \<lparr>is_created = True,
       d_data = \<lparr>not_loaded_fields = {}, data = [(''n'', VInt 5), (''_id'', VInt 1)],
                 modified_data = {}\<rparr>\<rparr>,
      Inr (InsertOneResult (VInt 1)))"
  by (simp add: commit_defs example_defs)

lemma commit_checked_doc_invalid:
  "commit env0 cls_checked False None (checked_doc 0) =
     ([PreInsert, RequiredValidated True, IoValidator ''n'' False, IoValidated False],
      checked_doc 0,
      Inl (ValidationError (MsgDict [(''n'', Msgs [''Must be positive.''])])))"
  by (simp add: commit_defs example_defs)






text \<open>
  C9, as stated, fails: the first commit of a document just instantiated, called with
  conditions, raises \<open>RuntimeError\<close> at once; no hook runs and no insert is attempted.
\<close>

theorem first_commit_with_conditions_counterexample:
  "\<not> is_created fresh_doc \<and>
   commit env0 cls_ab False (Some [(''version'', QVal (VInt 1))]) fresh_doc =
     ([], fresh_doc,
      Inl (RuntimeError ''Document must already exist in database to use `conditions`.''))"
  by (simp add: commit_def commit_try_def fresh_doc_def)

text \<open>
  C9, amended: for every document with \<open>is_created=False\<close>, \<open>is_modified()\<close> returns true
  whatever its fields; its commit is never a no-op and never an update, and when it
  returns it has issued an insert; called without conditions it enters the insert
  branch (the \<open>pre_insert\<close> hook is its first step).
\<close>

theorem new_document_commit:
  assumes "\<not> is_created doc"
    and "commit e cls io_validate_all conditions doc = (tr, doc', r)"
  shows "is_modified doc = Inr True \<and>
         r \<noteq> Inr NoOp \<and>
         (\<forall>q p. UpdateOne q p \<notin> set tr) \<and>
         (\<forall>ret. r = Inr ret \<longrightarrow> (\<exists>v p. ret = InsertOneResult v \<and> InsertOne p \<in> set tr)) \<and>
         (conditions = None \<or> conditions = Some [] \<longrightarrow> tr \<noteq> [] \<and> hd tr = PreInsert)"
proof -
  from assms(1) have m: "is_modified doc = Inr True" by (simp add: is_modified_def)
  from commit_trace[OF assms(2)] obtain d r' where
    ct: "commit_try e cls io_validate_all conditions doc = (tr, d, r')" and
    err: "isl r' \<longrightarrow> isl r" and ok: "\<forall>ret. r = Inr ret \<longrightarrow> r' = Inr ret" by blast
  show ?thesis
  proof (cases "conditions = None \<or> conditions = Some []")
    case False
    with assms(1) ct have "tr = []" "isl r'"
      by (auto simp: commit_try_def split: option.splits)
    with err m False show ?thesis by (auto simp: isl_def)
  next
    case True
    with assms(1) ct have ci: "commit_insert e cls io_validate_all doc = (tr, d, r')"
      by (auto simp: commit_try_def)
    from commit_insert_staged[OF ci] have
      st: "staged PreInsert PostInsert (\<lambda>w. \<exists>p. w = InsertOne p) tr (\<not> isl r')" and
      res: "\<forall>ret. r' = Inr ret \<longrightarrow> (\<exists>v. ret = InsertOneResult v)" by simp_all
    from staged_pre_post[OF st] have hd: "tr \<noteq> [] \<and> hd tr = PreInsert" .
    have noup: "\<forall>q p. UpdateOne q p \<notin> set tr"
      using staged_events[OF st] by fastforce
    have noop: "r \<noteq> Inr NoOp" using ok res by auto
    have ins: "\<forall>ret. r = Inr ret \<longrightarrow> (\<exists>v p. ret = InsertOneResult v \<and> InsertOne p \<in> set tr)"
    proof (intro allI impI)
      fix ret assume "r = Inr ret"
      with ok have r': "r' = Inr ret" by simp
      with st have "staged PreInsert PostInsert (\<lambda>w. \<exists>p. w = InsertOne p) tr True" by simp
      from staged_ok_write[OF this] r' res
      show "\<exists>v p. ret = InsertOneResult v \<and> InsertOne p \<in> set tr" by auto
    qed
    from m hd noup noop ins show ?thesis by simp
  qed
qed

theorem new_document_commit_witness:
  "\<not> is_created (checked_doc 5) \<and>
   is_modified (checked_doc 5) = Inr True \<and>
   commit env0 cls_checked False None (checked_doc 5) =
     ([PreInsert, RequiredValidated True, IoValidator ''n'' True, IoValidated True,
       InsertOne [(''n'', VInt 5)], PostInsert],
      \<lparr>is_created = True,
       d_data = \<lparr>not_loaded_fields = {}, data = [(''n'', VInt 5), (''_id'', VInt 1)],
                 modified_data = {}\<rparr>\<rparr>,
      Inr (InsertOneResult (VInt 1)))"
proof -
  have h: "\<not> is_created (checked_doc 5)" by (simp add: checked_doc_def)
  from new_document_commit[OF h commit_checked_doc_valid] h commit_checked_doc_valid
  show ?thesis by simp
qed

text \<open>
  C10: for every document with \<open>is_created=False\<close>, \<open>commit\<close> with non-empty conditions
  raises \<open>RuntimeError\<close>; its trace is empty (no hook, no validation and no storage
  operation ran) and the document is left as it was.
\<close>

theorem commit_conditions_on_new_document:
  assumes "\<not> is_created doc" and "conditions = Some c" and "c \<noteq> []"
  shows "commit e cls io_validate_all conditions doc =
           ([], doc,
            Inl (RuntimeError ''Document must already exist in database to use `conditions`.''))"
  using assms by (simp add: commit_def commit_try_def)

theorem commit_conditions_on_new_document_witness:
  "\<not> is_created fresh_doc \<and> [(''version'', QVal (VInt 1))] \<noteq> [] \<and>
   commit env0 cls_ab True (Some [(''version'', QVal (VInt 1))]) fresh_doc =
     ([], fresh_doc,
      Inl (RuntimeError ''Document must already exist in database to use `conditions`.''))"
proof -
  have h: "\<not> is_created fresh_doc" by (simp add: fresh_doc_def)
  from commit_conditions_on_new_document[OF h refl, of "[(''version'', QVal (VInt 1))]"
         env0 cls_ab True] h
  show ?thesis by simp
qed

section \<open>Properties of the query filters\<close>








lemma split_dots_nonempty: "split_dots s \<noteq> []"
  by (induction s) (auto split: list.splits)








section \<open>Properties of the builder and of the duplicate-key translation\<close>

lemmas build_defs =
  build_document_from_template_def build_document_opts_def collect_indexes_def
  custom_indexes_def unique_field_indexes_def inherited_indexes_def parse_field_def
  parse_index_def IndexModel_def gen_index_name_def name_or_attribute_def
  is_child_bases_def schema_bases_def on_need_add_id_field_def find_id_field_def
  add_child_field_def DocumentImplementation_def dict_of_def List.map_filter_def
  no_meta_def user_fields_def person_template_def student_template_def
  person_cls_def student_cls_def IntField_def StrField_def ObjectIdField_def
  storage_key_def Let_def

lemma build_person:
  "build_document_from_template camel person_template [DocBase DocumentImplementation]
     = Inr person_cls"
  by (simp add: build_defs)

lemma build_student:
  "build_document_from_template camel student_template [DocBase person_cls] = Inr student_cls"
  by (simp add: build_defs)

lemma new_student_doc:
  "new_data_proxy (schema_fields student_cls) [(''roll'', VInt 7)] = Inr (d_data student_doc)"
  by (simp add: new_data_proxy_def student_doc_def student_cls_def example_defs)

lemma sort_roll_cls: "sort [''roll'', ''_cls''] = [''_cls'', ''roll'']"
  by code_simp

lemma roll_index_matches:
  "find (index_matches roll_errmsg) (indexes (opts student_cls)) =
     Some \<lparr>index_key = [(KStr ''roll'', KDir ASCENDING), (KStr ''_cls'', KDir ASCENDING)],
           index_name = ''roll_1__cls_1'', index_args = [(''unique'', VBool True)]\<rparr>"
  by (simp add: student_cls_def index_matches_def roll_errmsg_def)

text \<open>
  C4: the code at the failing input. \<open>Student\<close> is a child of \<open>Person\<close> with a unique field
  \<open>roll\<close>; the builder gives it the unique index on \<open>roll\<close> and \<open>_cls\<close>. When the store
  raises the duplicate-key error of that index, the translation looks \<open>_cls\<close> up among
  the logical names of the fields, where the discriminator is named \<open>cls\<close>, and the
  commit ends with \<open>KeyError\<close>, not with a \<open>ValidationError\<close>.
\<close>

theorem duplicate_key_on_child_unique_field:
  "build_document_from_template (\<lambda>n. n) student_template [DocBase person_cls]
     = Inr student_cls \<and>
   new_data_proxy (schema_fields student_cls) [(''roll'', VInt 7)] = Inr (d_data student_doc) \<and>
   on_duplicate_key_error student_cls roll_errmsg = KeyError ''_cls'' \<and>
   commit env_duplicate student_cls False None student_doc =
     ([PreInsert, RequiredValidated True, IoValidated True,
       InsertOne [(''roll'', VInt 7), (''_cls'', VStr ''Student'')]],
      student_doc, Inl (KeyError ''_cls''))"
proof -
  have t: "on_duplicate_key_error student_cls roll_errmsg = KeyError ''_cls''"
    by (simp add: on_duplicate_key_error_def roll_index_matches sort_roll_cls getitem_def)
       (simp add: student_cls_def)
  have c: "commit_try env_duplicate student_cls False None student_doc =
     ([PreInsert, RequiredValidated True, IoValidated True,
       InsertOne [(''roll'', VInt 7), (''_cls'', VStr ''Student'')]],
      student_doc, Inl (DuplicateKeyError roll_errmsg))"
    by (simp add: commit_try_def commit_insert_def obind_def step_required_validate_def
          step_io_validate_def required_validate_def document_io_validate_def
          io_validate_data_proxy_def run_field_validators_def env_duplicate_def env0_def
          student_doc_def
          student_cls_def example_defs)
  from t c build_student new_student_doc show ?thesis
    by (simp add: commit_def)
qed

text \<open>
  C5: the code at the failing input. For the unique, required field \<open>n\<close> stored as \<open>_n\<close>,
  the index is on the logical name \<open>n\<close>, not on the storage key \<open>_n\<close>: the top-level call
  of \<open>parse_field\<close> passes \<open>name or field.attribute\<close>. For a unique field that is required
  and allows \<open>None\<close> the index is sparse, where the table in the documentation of
  \<open>BaseField\<close> gives a plain unique index.
\<close>

theorem unique_index_on_logical_name:
  "collect_indexes [] user_fields [DocBase DocumentImplementation] =
     Inr [\<lparr>index_key = [(KStr ''n'', KDir ASCENDING)], index_name = ''n_1'',
           index_args = [(''unique'', VBool True)]\<rparr>] \<and>
   map_of user_fields ''n'' = Some (IntField (Some ''_n'') True False True False Missing) \<and>
   storage_key ''n'' (IntField (Some ''_n'') True False True False Missing) = ''_n'' \<and>
   collect_indexes [] [(''m'', IntField None True True True False Missing)]
       [DocBase DocumentImplementation] =
     Inr [\<lparr>index_key = [(KStr ''m'', KDir ASCENDING)], index_name = ''m_1'',
           index_args = [(''unique'', VBool True), (''sparse'', VBool True)]\<rparr>]"
  by (simp add: build_defs)

lemma explicit_key_str: "\<exists>k. explicit_key (KeyStr s) = Inr k"
  by (cases s) auto

lemma explicit_key_cls: "explicit_key (KeyStr ''_cls'') = Inr (KStr ''_cls'', KDir ASCENDING)"
  by simp

lemma IndexModel_sel:
  "index_key (IndexModel keys args) = keys"
  "index_args (IndexModel keys args) = filter (\<lambda>(k, v). k \<noteq> ''name'') args"
  by (simp_all add: IndexModel_def)

lemma parse_index_child:
  assumes "parse_index x (Some ''_cls'') = Inr ix"
  shows "\<exists>ix0. parse_index x None = Inr ix0 \<and>
           index_key ix = index_key ix0 @ [(KStr ''_cls'', KDir ASCENDING)] \<and>
           index_args ix = index_args ix0"
proof -
  from assms obtain keys args where
    ix: "ix = IndexModel (keys @ [(KStr ''_cls'', KDir ASCENDING)]) args" and
    ix0: "parse_index x None = Inr (IndexModel keys args)"
    by (auto simp: parse_index_def ebind_Inr_iff explicit_key_cls
          simp del: explicit_key.simps split: prod.splits)
  then show ?thesis by (simp add: IndexModel_sel)
qed

lemma custom_indexes_child:
  assumes "custom_indexes True xs = Inr custom"
  shows "list_all2 (\<lambda>x ix. \<exists>ix0. parse_index x None = Inr ix0 \<and>
             index_key ix = index_key ix0 @ [(KStr ''_cls'', KDir ASCENDING)] \<and>
             index_args ix = index_args ix0) xs custom"
proof -
  have "sequence_err (map (\<lambda>x. parse_index x (Some ''_cls'')) xs) = Inr custom \<Longrightarrow>
        list_all2 (\<lambda>x ix. \<exists>ix0. parse_index x None = Inr ix0 \<and>
             index_key ix = index_key ix0 @ [(KStr ''_cls'', KDir ASCENDING)] \<and>
             index_args ix = index_args ix0) xs custom"
  proof (induction xs arbitrary: custom)
    case Nil
    then show ?case by simp
  next
    case (Cons x xs)
    from Cons.prems obtain ix rest where
      p: "parse_index x (Some ''_cls'') = Inr ix" and
      r: "sequence_err (map (\<lambda>x. parse_index x (Some ''_cls'')) xs) = Inr rest" and
      c: "custom = ix # rest"
      by (auto split: sum.splits)
    from parse_index_child[OF p] Cons.IH[OF r] c show ?case by simp
  qed
  with assms show ?thesis by (simp add: custom_indexes_def)
qed

lemma parse_field_unique:
  assumes "explicit_key (KeyStr mongo_path) = Inr k"
  shows "parse_field True (mongo_path, path, f) =
           (if unique f
            then Some (Inr (IndexModel [k, (KStr ''_cls'', KDir ASCENDING)]
                       ([(''unique'', VBool True)]
                        @ (if \<not> required f \<or> allow_none f
                           then [(''sparse'', VBool True)] else []))))
            else None)"
  using assms
  by (simp add: parse_field_def parse_index_def explicit_key_cls del: explicit_key.simps)

lemma parse_field_child:
  assumes "parse_field True call = Some (Inr ix)"
  shows "\<exists>k. explicit_key (KeyStr (fst call)) = Inr k \<and>
           index_key ix = [k, (KStr ''_cls'', KDir ASCENDING)] \<and>
           index_args ix =
             [(''unique'', VBool True)]
             @ (if \<not> required (snd (snd call)) \<or> allow_none (snd (snd call))
                then [(''sparse'', VBool True)] else [])"
proof -
  obtain mongo_path path f where call: "call = (mongo_path, path, f)" by (cases call)
  obtain k where k: "explicit_key (KeyStr mongo_path) = Inr k"
    using explicit_key_str by blast
  note pf = parse_field_unique[OF k, of path f]
  show ?thesis
  proof (cases "unique f")
    case False
    with assms call pf show ?thesis by simp
  next
    case True
    with assms call pf have
      "ix = IndexModel [k, (KStr ''_cls'', KDir ASCENDING)]
              ([(''unique'', VBool True)]
               @ (if \<not> required f \<or> allow_none f then [(''sparse'', VBool True)] else []))"
      by simp
    with k call show ?thesis by (simp add: IndexModel_sel)
  qed
qed

lemma parse_field_None: "parse_field c call = None \<longleftrightarrow> \<not> unique (snd (snd call))"
  by (cases call) (simp add: parse_field_def)

lemma map_filter_Cons:
  "List.map_filter f (x # xs) =
     (case f x of None \<Rightarrow> List.map_filter f xs | Some y \<Rightarrow> y # List.map_filter f xs)"
  by (simp add: List.map_filter_def split: option.splits)

lemma unique_field_indexes_child:
  assumes "unique_field_indexes True flds = Inr uniques"
  shows "list_all2 (\<lambda>call ix. \<exists>k. explicit_key (KeyStr (fst call)) = Inr k \<and>
             index_key ix = [k, (KStr ''_cls'', KDir ASCENDING)] \<and>
             index_args ix =
               [(''unique'', VBool True)]
               @ (if \<not> required (snd (snd call)) \<or> allow_none (snd (snd call))
                  then [(''sparse'', VBool True)] else []))
           (filter (\<lambda>call. unique (snd (snd call))) (visited_fields flds)) uniques"
proof -
  have "sequence_err (List.map_filter (parse_field True) calls) = Inr uniques \<Longrightarrow>
        list_all2 (\<lambda>call ix. \<exists>k. explicit_key (KeyStr (fst call)) = Inr k \<and>
             index_key ix = [k, (KStr ''_cls'', KDir ASCENDING)] \<and>
             index_args ix =
               [(''unique'', VBool True)]
               @ (if \<not> required (snd (snd call)) \<or> allow_none (snd (snd call))
                  then [(''sparse'', VBool True)] else []))
           (filter (\<lambda>call. unique (snd (snd call))) calls) uniques" for calls
  proof (induction calls arbitrary: uniques)
    case Nil
    then show ?case by (simp add: List.map_filter_def)
  next
    case (Cons call calls)
    show ?case
    proof (cases "parse_field True call")
      case None
      with Cons.prems have
        "sequence_err (List.map_filter (parse_field True) calls) = Inr uniques"
        by (simp add: map_filter_Cons)
      from Cons.IH[OF this] None show ?thesis by (simp add: parse_field_None)
    next
      case (Some r)
      with Cons.prems obtain ix rest where
        r: "r = Inr ix" and
        s: "sequence_err (List.map_filter (parse_field True) calls) = Inr rest" and
        u: "uniques = ix # rest"
        by (auto simp: map_filter_Cons split: sum.splits)
      from Some have un: "unique (snd (snd call))" using parse_field_None[of True call] by simp
      from Some r have "parse_field True call = Some (Inr ix)" by simp
      from parse_field_child[OF this] Cons.IH[OF s] u un show ?thesis by simp
    qed
  qed
  with assms show ?thesis by (simp add: unique_field_indexes_def)
qed

lemma map_of_fold_update:
  "map_of (fold (\<lambda>(k, v) d. AList.update k v d) kvs d0) = map_of d0 ++ map_of (rev kvs)"
proof (induction kvs arbitrary: d0)
  case Nil
  then show ?case by simp
next
  case (Cons kv kvs)
  obtain k v where kv: "kv = (k, v)" by (cases kv)
  show ?case
    by (simp add: kv Cons AList.update_conv' map_add_def fun_eq_iff split: option.splits)
qed

lemma map_of_dict_of_append:
  assumes "distinct (map fst ys)" and "map_of ys k = Some v"
  shows "map_of (dict_of (xs @ ys)) k = Some v"
proof -
  from assms(1) have "distinct (map fst (rev ys))" by (simp add: rev_map[symmetric])
  with assms have "map_of (rev ys) k = Some v"
    by (simp add: map_of_eq_Some_iff)
  then show ?thesis
    by (simp add: dict_of_def map_of_fold_update map_add_def)
qed

lemma on_need_add_id_field_distinct:
  "distinct (map fst flds) \<Longrightarrow> distinct (map fst (on_need_add_id_field bs flds))"
  by (simp add: on_need_add_id_field_def AList.distinct_update)

lemma build_document_from_template_Inr:
  assumes "build_document_from_template camel t bases = Inr impl"
  shows "\<exists>dopts ixs.
           build_document_opts camel t bases = Inr dopts \<and>
           collect_indexes (meta_indexes t) (schema_fields impl) bases = Inr ixs \<and>
           schema_fields impl =
             dict_of (concat (rev (schema_bases bases))
               @ (if is_child dopts
                  then add_child_field (t_name t)
                         (on_need_add_id_field (schema_bases bases) (t_fields t))
                  else on_need_add_id_field (schema_bases bases) (t_fields t))) \<and>
           cls_name impl = t_name t \<and>
           opts impl = dopts\<lparr>indexes := ixs\<rparr>"
proof (cases "build_document_opts camel t bases")
  case (Inl e)
  with assms show ?thesis by (simp add: build_document_from_template_def)
next
  case (Inr dopts)
  note o = Inr
  let ?flds = "dict_of (concat (rev (schema_bases bases))
               @ (if is_child dopts
                  then add_child_field (t_name t)
                         (on_need_add_id_field (schema_bases bases) (t_fields t))
                  else on_need_add_id_field (schema_bases bases) (t_fields t)))"
  show ?thesis
  proof (cases "collect_indexes (meta_indexes t) ?flds bases")
    case (Inl e)
    with assms o show ?thesis by (simp add: build_document_from_template_def Let_def)
  next
    case (Inr ixs)
    with assms o have "impl = \<lparr>cls_name = t_name t, schema_fields = ?flds,
                               opts = dopts\<lparr>indexes := ixs\<rparr>\<rparr>"
      by (simp add: build_document_from_template_def Let_def)
    with o Inr show ?thesis by simp
  qed
qed

lemma build_document_opts_is_child:
  assumes "build_document_opts camel t bases = Inr dopts"
  shows "is_child dopts = is_child_bases bases"
proof (cases "inherit_options (meta_abstract t) bases (meta_collection_name t)")
  case (Inl e)
  with assms show ?thesis by (simp add: build_document_opts_def)
next
  case (Inr collection)
  with assms show ?thesis
    by (auto simp: build_document_opts_def Let_def ebind_Inr_iff split: if_splits)
qed

lemma collect_indexes_child:
  assumes "is_child_bases bases" and "collect_indexes xs flds bases = Inr ixs"
  shows "\<exists>custom uniques.
           custom_indexes True xs = Inr custom \<and>
           unique_field_indexes True flds = Inr uniques \<and>
           ixs = inherited_indexes bases @ custom
                   @ [IndexModel [(KStr ''_cls'', KDir ASCENDING)] []] @ uniques"
proof (cases "custom_indexes True xs")
  case (Inl e)
  with assms show ?thesis by (simp add: collect_indexes_def)
next
  case (Inr custom)
  note c = Inr
  show ?thesis
  proof (cases "unique_field_indexes True flds")
    case (Inl e)
    with assms c show ?thesis by (simp add: collect_indexes_def parse_index_def)
  next
    case (Inr uniques)
    with assms c show ?thesis by (simp add: collect_indexes_def parse_index_def)
  qed
qed

text \<open>
  C6: when a template has a document base that is not abstract, building it (the fields
  it declares are a dictionary, so their names are distinct) gives an
  implementation marked as a child, whose schema has the field \<open>cls\<close>, stored as \<open>_cls\<close>,
  dump-only, with the name of the class as default. Its indexes are those of the bases;
  then one index for each index declared in \<open>Meta\<close>, in order, whose keys are the keys
  declared followed by the key \<open>_cls\<close>, with the options declared; then the index on
  \<open>_cls\<close> alone; then one index for each unique field that the builder visits, in order,
  whose keys are the key of the field followed by the key \<open>_cls\<close>, flagged unique (and
  sparse when the field is not required or allows \<open>None\<close>).
\<close>

theorem child_document_build:
  assumes "is_child_bases bases"
    and "distinct (map fst (t_fields t))"
    and "build_document_from_template camel t bases = Inr impl"
  shows "is_child (opts impl) \<and>
         map_of (schema_fields impl) ''cls'' =
           Some (StrField (Some ''_cls'') False False False True (VStr (t_name t))) \<and>
         storage_key ''cls'' (StrField (Some ''_cls'') False False False True (VStr (t_name t)))
           = ''_cls'' \<and>
         (\<exists>custom uniques.
            indexes (opts impl) =
              inherited_indexes bases @ custom
                @ [\<lparr>index_key = [(KStr ''_cls'', KDir ASCENDING)], index_name = ''_cls_1'',
                    index_args = []\<rparr>] @ uniques \<and>
            list_all2 (\<lambda>x ix. \<exists>ix0. parse_index x None = Inr ix0 \<and>
                 index_key ix = index_key ix0 @ [(KStr ''_cls'', KDir ASCENDING)] \<and>
                 index_args ix = index_args ix0) (meta_indexes t) custom \<and>
            list_all2 (\<lambda>call ix. \<exists>k. explicit_key (KeyStr (fst call)) = Inr k \<and>
                 index_key ix = [k, (KStr ''_cls'', KDir ASCENDING)] \<and>
                 index_args ix =
                   [(''unique'', VBool True)]
                   @ (if \<not> required (snd (snd call)) \<or> allow_none (snd (snd call))
                      then [(''sparse'', VBool True)] else []))
              (filter (\<lambda>call. unique (snd (snd call))) (visited_fields (schema_fields impl)))
              uniques)"
proof -
  from build_document_from_template_Inr[OF assms(3)] obtain dopts ixs where
    o: "build_document_opts camel t bases = Inr dopts" and
    ci: "collect_indexes (meta_indexes t) (schema_fields impl) bases = Inr ixs" and
    sf: "schema_fields impl =
           dict_of (concat (rev (schema_bases bases))
             @ (if is_child dopts
                then add_child_field (t_name t)
                       (on_need_add_id_field (schema_bases bases) (t_fields t))
                else on_need_add_id_field (schema_bases bases) (t_fields t)))" and
    op: "opts impl = dopts\<lparr>indexes := ixs\<rparr>"
    by blast
  from build_document_opts_is_child[OF o] assms(1) have child: "is_child dopts" by simp
  let ?own = "add_child_field (t_name t) (on_need_add_id_field (schema_bases bases) (t_fields t))"
  have d: "distinct (map fst ?own)"
    using assms(2)
    by (simp add: add_child_field_def AList.distinct_update on_need_add_id_field_distinct)
  have "map_of ?own ''cls'' =
          Some (StrField (Some ''_cls'') False False False True (VStr (t_name t)))"
    by (simp add: add_child_field_def AList.update_conv')
  from map_of_dict_of_append[OF d this] child sf
  have fld: "map_of (schema_fields impl) ''cls'' =
          Some (StrField (Some ''_cls'') False False False True (VStr (t_name t)))"
    by simp
  have sk: "storage_key ''cls''
              (StrField (Some ''_cls'') False False False True (VStr (t_name t))) = ''_cls''"
    by (simp add: storage_key_def StrField_def)
  from collect_indexes_child[OF assms(1) ci] obtain custom uniques where
    cu: "custom_indexes True (meta_indexes t) = Inr custom" and
    un: "unique_field_indexes True (schema_fields impl) = Inr uniques" and
    ixs: "ixs = inherited_indexes bases @ custom
                  @ [IndexModel [(KStr ''_cls'', KDir ASCENDING)] []] @ uniques"
    by blast
  have cls_ix: "IndexModel [(KStr ''_cls'', KDir ASCENDING)] [] =
                  \<lparr>index_key = [(KStr ''_cls'', KDir ASCENDING)], index_name = ''_cls_1'',
                   index_args = []\<rparr>"
    by (simp add: IndexModel_def gen_index_name_def)
  from op child have c1: "is_child (opts impl)" by simp
  from op ixs cls_ix have c2: "indexes (opts impl) =
              inherited_indexes bases @ custom
                @ [\<lparr>index_key = [(KStr ''_cls'', KDir ASCENDING)], index_name = ''_cls_1'',
                    index_args = []\<rparr>] @ uniques"
    by simp
  from c1 fld sk c2 custom_indexes_child[OF cu] unique_field_indexes_child[OF un]
  show ?thesis by blast
qed

theorem child_document_build_witness:
  "is_child_bases [DocBase person_cls] \<and>
   distinct (map fst (t_fields student_template)) \<and>
   build_document_from_template (\<lambda>n. n) student_template [DocBase person_cls]
     = Inr student_cls \<and>
   is_child (opts student_cls) \<and>
   map_of (schema_fields student_cls) ''cls'' =
     Some (StrField (Some ''_cls'') False False False True (VStr ''Student'')) \<and>
   indexes (opts student_cls) =
     [\<lparr>index_key = [(KStr ''name'', KDir DESCENDING), (KStr ''_cls'', KDir ASCENDING)],
       index_name = ''name_-1__cls_1'', index_args = []\<rparr>,
      \<lparr>index_key = [(KStr ''_cls'', KDir ASCENDING)],
       index_name = ''_cls_1'', index_args = []\<rparr>,
      \<lparr>index_key = [(KStr ''roll'', KDir ASCENDING), (KStr ''_cls'', KDir ASCENDING)],
       index_name = ''roll_1__cls_1'', index_args = [(''unique'', VBool True)]\<rparr>]"
proof -
  have h1: "is_child_bases [DocBase person_cls]"
    by (simp add: is_child_bases_def person_cls_def)
  have h2: "distinct (map fst (t_fields student_template))"
    by (simp add: student_template_def no_meta_def)
  have ix: "indexes (opts student_cls) =
     [\<lparr>index_key = [(KStr ''name'', KDir DESCENDING), (KStr ''_cls'', KDir ASCENDING)],
       index_name = ''name_-1__cls_1'', index_args = []\<rparr>,
      \<lparr>index_key = [(KStr ''_cls'', KDir ASCENDING)],
       index_name = ''_cls_1'', index_args = []\<rparr>,
      \<lparr>index_key = [(KStr ''roll'', KDir ASCENDING), (KStr ''_cls'', KDir ASCENDING)],
       index_name = ''roll_1__cls_1'', index_args = [(''unique'', VBool True)]\<rparr>]"
    by (simp add: student_cls_def)
  note t = child_document_build[OF h1 h2 build_student]
  from t have "is_child (opts student_cls)" by (rule conjunct1)
  moreover from t have "map_of (schema_fields student_cls) ''cls'' =
     Some (StrField (Some ''_cls'') False False False True (VStr (t_name student_template)))"
    by (elim conjE)
  ultimately show ?thesis
    using h1 h2 build_student ix by (simp add: student_template_def no_meta_def)
qed

end
